theory Spec2Isabelle
  imports Complex_Main "HOL-Library.AList"
begin

section \<open>Hedera wallet snap: the facades\<close>

text \<open>
  A shallow embedding of the five facade files of the Hedera wallet snap:
  \<^verbatim>\<open>CreateTopicFacade.createTopic\<close>, \<^verbatim>\<open>AssociateTokensFacade.associateTokens\<close>,
  \<^verbatim>\<open>StakeHbarFacade.stakeHbar\<close>, \<^verbatim>\<open>UpdateTokenFeeScheduleFacade.updateTokenFeeSchedule\<close>
  and \<^verbatim>\<open>AtomicSwapFacade.initiateSwap / completeSwap / createTxDialog\<close>.

  Every facade is an async function that talks to collaborators which are not part of
  these files (the Hedera client factory, the mirror node, the snap dialog primitives,
  the command objects, the persisted snap state). The model makes each awaited call an
  event of a trace and takes the collaborator's answer from an environment record, so a
  run of a facade is a pair: the value it returns or the error it throws, and the calls it
  made, in order.
\<close>

subsection \<open>JavaScript numbers and strings\<close>

text \<open>
  Amounts, fees, balances and percentages are the finite numbers of a request or of a
  mirror-node answer. They are modelled by their exact values (\<open>real\<close>): the binary
  rounding of IEEE doubles is not modelled. Where the code itself can produce or test a
  value that is not a finite number (the literal \<^verbatim>\<open>NaN\<close>, \<^verbatim>\<open>Number(s)\<close> of a string,
  \<^verbatim>\<open>undefined + fee\<close>), the type \<open>number\<close> carries \<open>NaN\<close>.
\<close>

datatype number = NaN | Fin real

fun isFinite :: "number option \<Rightarrow> bool" where
  "isFinite (Some (Fin x)) = True"
| "isFinite (Some NaN) = False"
| "isFinite None = False"

text \<open>\<^verbatim>\<open>undefined\<close> coerced to a number is \<^verbatim>\<open>NaN\<close>.\<close>

fun toNumber :: "number option \<Rightarrow> number" where
  "toNumber None = NaN"
| "toNumber (Some n) = n"

fun numAdd :: "number \<Rightarrow> number \<Rightarrow> number" where
  "numAdd (Fin a) (Fin b) = Fin (a + b)"
| "numAdd a b = NaN"

text \<open>Comparisons with \<^verbatim>\<open>NaN\<close> are false.\<close>

fun numLt :: "number \<Rightarrow> number \<Rightarrow> bool" where
  "numLt (Fin a) (Fin b) = (a < b)"
| "numLt a b = False"

text \<open>A number is truthy unless it is \<^verbatim>\<open>undefined\<close>, \<^verbatim>\<open>0\<close> or \<^verbatim>\<open>NaN\<close>.\<close>

fun truthyNum :: "number option \<Rightarrow> bool" where
  "truthyNum (Some (Fin x)) = (x \<noteq> 0)"
| "truthyNum (Some NaN) = False"
| "truthyNum None = False"

text \<open>
  \<^verbatim>\<open>Number(x.toFixed(2))\<close>: below \<^verbatim>\<open>1e21\<close> the nearest multiple of \<^verbatim>\<open>0.01\<close>, a tie going
  away from zero (ECMA-262, Number.prototype.toFixed: "if there are two such n, pick the
  larger n", after the sign has been split off); from \<^verbatim>\<open>1e21\<close> on the number itself.
\<close>

definition toFixed2 :: "real \<Rightarrow> real" where
  "toFixed2 x = (if 10 ^ 21 \<le> \<bar>x\<bar> then x
                 else sgn x * of_int \<lfloor>\<bar>x\<bar> * 100 + 1 / 2\<rfloor> / 100)"

text \<open>\<^verbatim>\<open>s.split(c)\<close> for a one-character separator: at least one piece.\<close>

fun jsSplit :: "char \<Rightarrow> string \<Rightarrow> string list" where
  "jsSplit c [] = [[]]"
| "jsSplit c (x # xs) =
     (if x = c then [] # jsSplit c xs
      else (case jsSplit c xs of
              [] \<Rightarrow> [[x]]
            | y # ys \<Rightarrow> (x # y) # ys))"

text \<open>
  \<^verbatim>\<open>memo.replace(/\r?\n|\r/gu, '').trim()\<close>: every carriage return and line feed is
  removed, then the white space at both ends. A string is a list of 8-bit characters, the
  code units below 256; the white space among them is tab, line feed, vertical tab, form
  feed, carriage return, space and the no-break space \<^verbatim>\<open>U+00A0\<close>. The white space that
  \<^verbatim>\<open>trim\<close> strips above \<^verbatim>\<open>U+00FF\<close> cannot occur in such a string.
\<close>

definition isLineBreak :: "char \<Rightarrow> bool" where
  "isLineBreak c = (c = CHR 0x0A \<or> c = CHR 0x0D)"

definition isWhiteSpace :: "char \<Rightarrow> bool" where
  "isWhiteSpace c = (c = CHR 0x09 \<or> c = CHR 0x0A \<or> c = CHR 0x0B \<or> c = CHR 0x0C
                     \<or> c = CHR 0x0D \<or> c = CHR 0x20 \<or> c = CHR 0xA0)"

definition trim :: "string \<Rightarrow> string" where
  "trim s = rev (dropWhile isWhiteSpace (rev (dropWhile isWhiteSpace s)))"

definition stripMemo :: "string option \<Rightarrow> string" where
  "stripMemo memo =
     (case memo of
        None \<Rightarrow> []
      | Some m \<Rightarrow> if m = [] then [] else trim (filter (\<lambda>c. \<not> isLineBreak c) m))"

text \<open>\<^verbatim>\<open>xs.indexOf(x)\<close>: the first position of \<open>x\<close>, or \<open>-1\<close>.\<close>

fun indexOfFrom :: "int \<Rightarrow> 'a list \<Rightarrow> 'a \<Rightarrow> int" where
  "indexOfFrom i [] x = -1"
| "indexOfFrom i (y # ys) x = (if y = x then i else indexOfFrom (i + 1) ys x)"

definition indexOf :: "'a list \<Rightarrow> 'a \<Rightarrow> int" where
  "indexOf xs x = indexOfFrom 0 xs x"

subsection \<open>Requests, wallet state and mirror-node answers\<close>

datatype AssetType = HBAR | TOKEN | NFT

fun assetTypeStr :: "AssetType \<Rightarrow> string" where
  "assetTypeStr HBAR = ''HBAR''"
| "assetTypeStr TOKEN = ''TOKEN''"
| "assetTypeStr NFT = ''NFT''"

record SimpleTransfer =
  assetType :: AssetType
  to :: string
  amount :: real
  assetId :: "string option"
  from' :: "string option"
  decimals :: "number option"

text \<open>
  \<^verbatim>\<open>transfer.assetId as string\<close> used as a property key or inside a template literal:
  \<^verbatim>\<open>undefined\<close> reads as the string \<^verbatim>\<open>undefined\<close>.
\<close>

definition assetIdStr :: "SimpleTransfer \<Rightarrow> string" where
  "assetIdStr t = (case assetId t of None \<Rightarrow> ''undefined'' | Some a \<Rightarrow> a)"

record AtomicSwap =
  requester :: SimpleTransfer
  responder :: SimpleTransfer

record ServiceFee =
  percentageCut :: real
  toAddress :: "string option"

record InitiateSwapRequestParams =
  atomicSwaps :: "AtomicSwap list option"
  swapMemo :: "string option"
  maxFee :: "real option"
  serviceFee :: "ServiceFee option"

record SignScheduledTxParams =
  scheduleId :: string

record CreateTopicRequestParams =
  memo :: "string option"
  adminKey :: "string option"
  submitKey :: "string option"
  autoRenewPeriod :: "real option"
  autoRenewAccount :: "string option"

record AssociateTokensRequestParams =
  tokenIds :: "string list option"

record StakeHbarRequestParams =
  nodeId :: "real option"
  accountId :: "string option"

record TokenCustomFee =
  feeCollectorAccountId :: string
  hbarAmount :: "real option"
  tokenAmount :: "real option"
  denominatingTokenId :: "string option"
  allCollectorsAreExempt :: "bool option"

record UpdateTokenFeeScheduleRequestParams =
  tokenId :: string
  customFees :: "TokenCustomFee list option"

record KeyStore =
  privateKey :: string
  curve :: string

record StakingInfo =
  stakedAccountId :: "string option"
  stakedNodeId :: "string option"
  declineStakingReward :: bool

record TokenBalance =
  tokenBalance :: real
  tokenDecimals :: real

record AccountBalance =
  hbars :: real
  tokens :: "string \<Rightarrow> TokenBalance option"

record AccountInfo =
  balance :: AccountBalance
  stakingInfo :: StakingInfo

record WalletAccountState =
  keyStore :: KeyStore
  accountInfo :: AccountInfo

record Account =
  hederaAccountId :: string
  hederaEvmAddress :: string
  network :: string
  mirrorNodeUrl :: string

text \<open>
  \<^verbatim>\<open>state.accountState[hederaEvmAddress][network]\<close>: the declared type is a
  \<^verbatim>\<open>Record<string, Record<string, ...>>\<close>, every lookup yields an account state.
\<close>

record SnapState =
  currentAccount :: Account
  accountState :: "string \<Rightarrow> string \<Rightarrow> WalletAccountState"

record WalletSnapParams =
  origin :: string
  state :: SnapState

record MirrorTokenInfo =
  token_name :: string
  token_type :: string
  token_symbol :: string
  token_decimals :: string
  total_supply :: string
  max_supply :: string

record MirrorStakingInfo =
  description :: string
  node_id :: real
  node_account_id :: string
  stake :: real
  staking_period_from :: string
  staking_period_to :: string

datatype TxRecord = TxRecord string

record HederaClientImpl =
  getClient :: string
  getPrivateKey :: "string option"

subsection \<open>Dialog panels, commands, errors and events\<close>

datatype component =
    Heading string
  | Text string
  | Divider
  | Copyable string
  | FeeDisplay number SimpleTransfer

text \<open>
  \<^verbatim>\<open>SnapUtils.generateCommonPanel(origin, network, mirrorNodeUrl, panelToShow)\<close> is not
  part of these files: its result is kept as the four arguments it was given.
\<close>

datatype panel = CommonPanel string string string "component list"

fun panelToShow :: "panel \<Rightarrow> component list" where
  "panelToShow (CommonPanel og nw url cs) = cs"

datatype DialogParams = DialogParams string panel

fun content :: "DialogParams \<Rightarrow> panel" where
  "content (DialogParams ty p) = p"

datatype command =
    CreateTopicCommand "string option" "string option" "string option" "real option" "string option"
  | AssociateTokensCommand "string list"
  | StakeHbarCommand "real option" "string option"
  | UpdateTokenFeeScheduleCommand string string number "TokenCustomFee list"
  | AtomicSwapCommand "AtomicSwap list" "string option" "real option" "(string \<times> number) list" "string option"

text \<open>The method of the command object that a facade calls.\<close>

datatype commandMethod = execute | initiateSwapMethod | completeSwapMethod string

datatype error =
    resourceUnavailable string
  | transactionRejected string
  | methodNotSupported string
  | invalidParams string
  | Thrown string

datatype event =
    CreateClient string string string string
  | GetMirrorAccountInfo string string
  | GetTokenById string string
  | GetNodeStakingInfo string real
  | SnapDialog DialogParams
  | CommandCall command commandMethod string
  | SnapCreateDialogAfterTransaction string TxRecord
  | SnapNotification string
  | UpdateState SnapState
  | ConsoleError "string list"

text \<open>
  The collaborators and the run-time primitives that a facade calls and that are not part
  of these files.
  \<^item> A call that goes to the network (the client factory, the mirror node, a command) may
    throw (\<open>Inl\<close>); the factory may also answer \<^verbatim>\<open>null\<close>, and the token lookup may answer
    the empty object (\<open>None\<close>). A collaborator answers the same call the same way.
  \<^item> The helpers of \<^verbatim>\<open>SnapUtils\<close> that only show something (\<^verbatim>\<open>generateCommonPanel\<close>,
    \<^verbatim>\<open>snapDialog\<close>, \<^verbatim>\<open>snapCreateDialogAfterTransaction\<close>, \<^verbatim>\<open>snapNotification\<close>), the console and
    \<^verbatim>\<open>SnapState.updateState\<close> are taken to return; \<^verbatim>\<open>snapDialog\<close> returns what the user
    answered.
  \<^item> \<^verbatim>\<open>SnapUtils.initializePanelToShow()\<close> and \<^verbatim>\<open>SnapUtils.formatFeeDisplay\<close> build parts of
    a panel.
  \<^item> \<open>jsString\<close> is the conversion of a number to a string (\<^verbatim>\<open>String(x)\<close>, a template
    literal), \<open>jsNumber\<close> is \<^verbatim>\<open>Number(s)\<close> of a string, \<open>jsPow\<close> is \<^verbatim>\<open>Math.pow\<close> and
    \<open>jsDivide\<close> the division of two numbers that may not be finite; \<open>errorString\<close> is
    \<^verbatim>\<open>String(error)\<close>; \<open>hbarFromTinybarString\<close> is
    \<^verbatim>\<open>Hbar.from(x, HbarUnit.Tinybar).toString()\<close> and \<open>timestampToString\<close> is
    \<^verbatim>\<open>Utils.timestampToString\<close>.
\<close>

record env =
  createClient :: "string \<Rightarrow> string \<Rightarrow> string \<Rightarrow> string \<Rightarrow> error + HederaClientImpl option"
  getMirrorAccountInfo :: "string \<Rightarrow> string \<Rightarrow> error + AccountInfo"
  getTokenById :: "string \<Rightarrow> string \<Rightarrow> error + MirrorTokenInfo option"
  getNodeStakingInfo :: "string \<Rightarrow> real \<Rightarrow> error + MirrorStakingInfo list"
  snapDialog :: "DialogParams \<Rightarrow> bool"
  runCommand :: "command \<Rightarrow> commandMethod \<Rightarrow> string \<Rightarrow> error + TxRecord"
  initializePanelToShow :: "component list"
  formatFeeDisplay :: "number \<Rightarrow> SimpleTransfer \<Rightarrow> component"
  jsString :: "number \<Rightarrow> string"
  jsNumber :: "string \<Rightarrow> number"
  jsPow :: "number \<Rightarrow> number \<Rightarrow> number"
  jsDivide :: "number \<Rightarrow> number \<Rightarrow> number"
  errorString :: "error \<Rightarrow> string"
  hbarFromTinybarString :: "real \<Rightarrow> string"
  timestampToString :: "string \<Rightarrow> string"

subsection \<open>Runs: a result and the calls made\<close>

type_synonym 'a run = "(error + 'a) \<times> event list"

definition result :: "'a run \<Rightarrow> error + 'a" where
  "result r = fst r"

definition trace :: "'a run \<Rightarrow> event list" where
  "trace r = snd r"

definition return :: "'a \<Rightarrow> 'a run" where
  "return x = (Inr x, [])"

definition throw :: "error \<Rightarrow> 'a run" where
  "throw e = (Inl e, [])"

text \<open>An awaited call: the event, and the collaborator's answer.\<close>

definition await :: "event \<Rightarrow> error + 'a \<Rightarrow> 'a run" where
  "await ev answer = (answer, [ev])"

definition emit :: "event \<Rightarrow> unit run" where
  "emit ev = (Inr (), [ev])"

text \<open>Sequencing: a throw ends the run of the block.\<close>

definition bind :: "'a run \<Rightarrow> ('a \<Rightarrow> 'b run) \<Rightarrow> 'b run" where
  "bind m f =
     (case fst m of
        Inl e \<Rightarrow> (Inl e, snd m)
      | Inr x \<Rightarrow> (fst (f x), snd m @ snd (f x)))"

text \<open>\<^verbatim>\<open>try { m } catch (error) { h error }\<close>.\<close>

definition tryCatch :: "'a run \<Rightarrow> (error \<Rightarrow> 'a run) \<Rightarrow> 'a run" where
  "tryCatch m h =
     (case fst m of
        Inl e \<Rightarrow> (fst (h e), snd m @ snd (h e))
      | Inr x \<Rightarrow> (Inr x, snd m))"

text \<open>The awaited collaborator calls and the console.\<close>

definition callCreateClient :: "env \<Rightarrow> string \<Rightarrow> string \<Rightarrow> string \<Rightarrow> string \<Rightarrow> HederaClientImpl option run" where
  "callCreateClient env acc nw cv pk = await (CreateClient acc nw cv pk) (createClient env acc nw cv pk)"

definition callGetMirrorAccountInfo :: "env \<Rightarrow> string \<Rightarrow> string \<Rightarrow> AccountInfo run" where
  "callGetMirrorAccountInfo env acc url =
     await (GetMirrorAccountInfo acc url) (getMirrorAccountInfo env acc url)"

definition callGetTokenById :: "env \<Rightarrow> string \<Rightarrow> string \<Rightarrow> MirrorTokenInfo option run" where
  "callGetTokenById env tid url = await (GetTokenById tid url) (getTokenById env tid url)"

definition callGetNodeStakingInfo :: "env \<Rightarrow> string \<Rightarrow> real \<Rightarrow> MirrorStakingInfo list run" where
  "callGetNodeStakingInfo env url nid =
     await (GetNodeStakingInfo url nid) (getNodeStakingInfo env url nid)"

definition callSnapDialog :: "env \<Rightarrow> DialogParams \<Rightarrow> bool run" where
  "callSnapDialog env dialogParams = await (SnapDialog dialogParams) (Inr (snapDialog env dialogParams))"

definition callCommand :: "env \<Rightarrow> command \<Rightarrow> commandMethod \<Rightarrow> string \<Rightarrow> TxRecord run" where
  "callCommand env cmd meth client = await (CommandCall cmd meth client) (runCommand env cmd meth client)"

definition consoleError :: "string list \<Rightarrow> unit run" where
  "consoleError args = emit (ConsoleError args)"

subsection \<open>AtomicSwapFacade\<close>

text \<open>
  The body of the \<^verbatim>\<open>reduce\<close> of \<^verbatim>\<open>initiateSwap\<close>, for one transfer: the accumulator
  \<^verbatim>\<open>acc\<close> is an object keyed by strings (kept in insertion order), the transfer is
  changed in place.

  \<open>feeOf\<close> is \<^verbatim>\<open>Number((amount * (percentageCut / 100.0)).toFixed(2))\<close> on the exact
  values. It is the fee of the code wherever the product and the quotient are exact in a
  double (as for the amounts and the percentages of the requests below); where a double
  rounds, as in \<^verbatim>\<open>1.5 * (1 / 100)\<close>, the code can round a tie the other way.
\<close>

definition feeOf :: "ServiceFee \<Rightarrow> SimpleTransfer \<Rightarrow> real" where
  "feeOf svcFee transfer = toFixed2 (amount transfer * (percentageCut svcFee / 100))"

definition serviceFeeStep ::
  "ServiceFee \<Rightarrow> (string \<times> number) list \<Rightarrow> SimpleTransfer \<Rightarrow> (string \<times> number) list \<times> SimpleTransfer" where
  "serviceFeeStep svcFee acc transfer =
     (let acc1 =
            (if \<not> truthyNum (map_of acc (assetTypeStr (assetType transfer))) then
               (if assetType transfer = HBAR
                then AList.update (assetTypeStr (assetType transfer)) (Fin 0) acc
                else AList.update (assetIdStr transfer) (Fin 0) acc)
             else acc);
          fee = feeOf svcFee transfer;
          transfer1 = transfer\<lparr>amount := amount transfer - fee / 2\<rparr>;
          acc2 =
            (if assetType transfer = HBAR
             then AList.update (assetTypeStr (assetType transfer))
                    (numAdd (toNumber (map_of acc1 (assetTypeStr (assetType transfer)))) (Fin fee)) acc1
             else AList.update (assetIdStr transfer)
                    (numAdd (toNumber (map_of acc1 (assetIdStr transfer))) (Fin fee)) acc1)
      in (acc2, transfer1))"

fun reduceServiceFees ::
  "ServiceFee \<Rightarrow> (string \<times> number) list \<Rightarrow> SimpleTransfer list \<Rightarrow> (string \<times> number) list \<times> SimpleTransfer list" where
  "reduceServiceFees svcFee acc [] = (acc, [])"
| "reduceServiceFees svcFee acc (transfer # transfers) =
     (case serviceFeeStep svcFee acc transfer of
        (acc1, transfer1) \<Rightarrow>
          (case reduceServiceFees svcFee acc1 transfers of
             (acc2, transfers1) \<Rightarrow> (acc2, transfer1 # transfers1)))"

text \<open>
  \<^verbatim>\<open>transfers\<close> holds the requester and the responder of every swap, in order. The array
  holds the very objects of the swaps, so what the \<^verbatim>\<open>reduce\<close> writes to a transfer is
  seen in \<^verbatim>\<open>atomicSwaps\<close>: \<open>writeBack\<close> puts the changed transfers back.
\<close>

fun transfersOf :: "AtomicSwap list \<Rightarrow> SimpleTransfer list" where
  "transfersOf [] = []"
| "transfersOf (swap # swaps) = requester swap # responder swap # transfersOf swaps"

fun writeBack :: "AtomicSwap list \<Rightarrow> SimpleTransfer list \<Rightarrow> AtomicSwap list" where
  "writeBack (swap # swaps) (rq # rs # transfers) =
     swap\<lparr>requester := rq, responder := rs\<rparr> # writeBack swaps transfers"
| "writeBack swaps transfers = []"

definition insufficientHbarMessage :: string where
  "insufficientHbarMessage =
     ''There is not enough Hbar in the wallet to transfer the requested amount''"

definition proceedAmountMessage :: string where
  "proceedAmountMessage = ''Proceed only if you are sure about the amount being transferred''"

definition notOwnedMessage :: "SimpleTransfer \<Rightarrow> string" where
  "notOwnedMessage transfer =
     ''This wallet either does not own  '' @ assetIdStr transfer
       @ '' or there is not enough balance to transfer the requested amount''"

definition tokenInfoErrorMessage :: "string \<Rightarrow> string" where
  "tokenInfoErrorMessage tid =
     ''Error while trying to get token info for '' @ tid
       @ '' from Hedera Mirror Nodes at this time''"

text \<open>
  \<^verbatim>\<open>createTxDialog\<close>, the branch of an HBAR transfer. It yields the transfer, the name of
  the asset, \<^verbatim>\<open>feeToDisplay\<close> and the panel.
\<close>

definition createTxDialogHbar ::
  "AccountBalance \<Rightarrow> SimpleTransfer \<Rightarrow> component list \<Rightarrow> (string \<times> number) list
     \<Rightarrow> (SimpleTransfer \<times> string \<times> number option \<times> component list) run" where
  "createTxDialogHbar walletBalance transfer panel serviceFeesToPay =
     (if numLt (Fin (hbars walletBalance))
           (numAdd (Fin (amount transfer)) (toNumber (map_of serviceFeesToPay ''HBAR'')))
      then bind (consoleError [insufficientHbarMessage]) (\<lambda>_.
           return (transfer, ''HBAR'', Some (Fin 0),
                   panel @ [Text insufficientHbarMessage, Text proceedAmountMessage]))
      else return (transfer, ''HBAR'', Some (Fin 0), panel))"

text \<open>The branch of a token or an NFT.\<close>

definition createTxDialogToken ::
  "env \<Rightarrow> AccountBalance \<Rightarrow> SimpleTransfer \<Rightarrow> string \<Rightarrow> component list \<Rightarrow> (string \<times> number) list
     \<Rightarrow> (SimpleTransfer \<times> string \<times> number option \<times> component list) run" where
  "createTxDialogToken env walletBalance transfer url panel serviceFeesToPay =
     (let transfer1 = transfer\<lparr>decimals :=
            Some (case tokens walletBalance (assetIdStr transfer) of
                    Some tb \<Rightarrow> Fin (tokenDecimals tb)
                  | None \<Rightarrow> NaN)\<rparr>;
          lacking = (case tokens walletBalance (assetIdStr transfer) of
                       None \<Rightarrow> True
                     | Some tb \<Rightarrow> tokenBalance tb < amount transfer)
      in
      bind (if lacking
            then bind (consoleError [notOwnedMessage transfer]) (\<lambda>_.
                 return (panel @ [Text (notOwnedMessage transfer), Text proceedAmountMessage]))
            else return panel) (\<lambda>panel1.
      bind (if assetType transfer1 = NFT
            then (case assetId transfer1 of
                    None \<Rightarrow> throw (Thrown ''TypeError'')
                  | Some a \<Rightarrow>
                      (case jsSplit CHR ''/'' a of
                         [] \<Rightarrow> return (''undefined'', ''undefined'')
                       | [p0] \<Rightarrow> return (p0, ''undefined'')
                       | p0 # p1 # ps \<Rightarrow> return (p0, p1)))
            else return (assetIdStr transfer1, [])) (\<lambda>(assetId1, nftSerialNumber).
      bind (callGetTokenById env assetId1 url) (\<lambda>tokenInfo.
      bind (case tokenInfo of
              None \<Rightarrow>
                bind (consoleError [tokenInfoErrorMessage assetId1]) (\<lambda>_.
                return (transfer1, [],
                        panel1 @ [Text ''Asset Id:'', Copyable assetId1,
                                  Text (tokenInfoErrorMessage assetId1),
                                  Text ''Proceed only if you are sure about the asset ID being transferred'']))
            | Some ti \<Rightarrow>
                return (transfer1\<lparr>decimals := Some (jsNumber env (token_decimals ti))\<rparr>,
                        token_symbol ti,
                        panel1 @ [Text ''Asset Id:'', Copyable assetId1,
                                  Text (''Asset Name: '' @ token_name ti),
                                  Text (''Asset Type: '' @ token_type ti),
                                  Text (''Symbol: '' @ token_symbol ti)]))
           (\<lambda>(transfer2, asset, panel2).
      if \<not> isFinite (decimals transfer2)
      then bind (consoleError [''decimals is not a finite number'']) (\<lambda>_.
           throw (invalidParams ''decimals is not a finite number''))
      else return
             (transfer2, asset,
              (if numLt (Fin 0) (toNumber (map_of serviceFeesToPay (assetTypeStr (assetType transfer2))))
               then map_of serviceFeesToPay (assetTypeStr (assetType transfer2))
               else map_of serviceFeesToPay (assetIdStr transfer2)),
              (if assetType transfer2 = NFT
               then panel2 @ [Text (''NFT Serial Number: '' @ nftSerialNumber)]
               else panel2)))))))"

definition delegatedTransferMessage :: string where
  "delegatedTransferMessage =
     ''Atomic Swaps cannot be done with delegated transfers at this time''"

definition createTxDialog ::
  "env \<Rightarrow> string \<Rightarrow> SimpleTransfer \<Rightarrow> string \<Rightarrow> component list \<Rightarrow> (string \<times> number) list \<Rightarrow> bool
     \<Rightarrow> (SimpleTransfer \<times> component list) run" where
  "createTxDialog env accountIdToSendFrom transfer url panel serviceFeesToPay isRequester =
     (if from' transfer \<noteq> None \<and> from' transfer \<noteq> Some []
      then bind (consoleError [delegatedTransferMessage]) (\<lambda>_.
           throw (methodNotSupported delegatedTransferMessage))
      else
      bind (callGetMirrorAccountInfo env accountIdToSendFrom url) (\<lambda>ownerAccountInfo.
      bind (if assetType transfer = HBAR
            then createTxDialogHbar (balance ownerAccountInfo) transfer
                   (panel @ [Text (''Swap '' @ (if isRequester then ''Requester'' else ''Responder'')),
                             Copyable accountIdToSendFrom,
                             Text (''Asset Type: '' @ assetTypeStr (assetType transfer))])
                   serviceFeesToPay
            else createTxDialogToken env (balance ownerAccountInfo) transfer url
                   (panel @ [Text (''Swap '' @ (if isRequester then ''Requester'' else ''Responder'')),
                             Copyable accountIdToSendFrom,
                             Text (''Asset Type: '' @ assetTypeStr (assetType transfer))])
                   serviceFeesToPay)
           (\<lambda>(newTransfer, asset, feeToDisplay, panel1).
      return
        (newTransfer,
         panel1
           @ [Text ''To:'', Copyable (to newTransfer),
              Text (''Amount: '' @ jsString env (Fin (amount newTransfer)) @ '' '' @ asset)]
           @ (if numLt (Fin 0) (toNumber feeToDisplay)
              then [formatFeeDisplay env (toNumber feeToDisplay) newTransfer,
                    formatFeeDisplay env
                      (numAdd (Fin (amount newTransfer)) (toNumber feeToDisplay)) newTransfer]
              else [])))))"

text \<open>
  The loop of \<^verbatim>\<open>initiateSwap\<close> over the swaps. \<open>i\<close> is the position of the swap in
  \<^verbatim>\<open>atomicSwaps\<close>, which \<^verbatim>\<open>atomicSwaps.indexOf(swap)\<close> finds (the swaps of a request are
  distinct objects). The loop changes the swaps in place; it yields them with the panel.
\<close>

fun swapDialogs ::
  "env \<Rightarrow> string \<Rightarrow> string \<Rightarrow> (string \<times> number) list \<Rightarrow> nat \<Rightarrow> AtomicSwap list \<Rightarrow> component list
     \<Rightarrow> (AtomicSwap list \<times> component list) run" where
  "swapDialogs env accId url serviceFeesToPay i [] panel = return ([], panel)"
| "swapDialogs env accId url serviceFeesToPay i (swap # swaps) panel =
     bind (createTxDialog env accId (requester swap) url
             (panel @ [Divider, Text (''Swap #'' @ jsString env (Fin (real (i + 1)))), Divider])
             serviceFeesToPay True) (\<lambda>(rq, panel1).
     bind (createTxDialog env (to rq) ((responder swap)\<lparr>to := accId\<rparr>) url
             (panel1 @ [Divider]) serviceFeesToPay False) (\<lambda>(rs, panel2).
     bind (swapDialogs env accId url serviceFeesToPay (i + 1) swaps panel2) (\<lambda>(swaps1, panel3).
     return (swap\<lparr>requester := rq, responder := rs\<rparr> # swaps1, panel3))))"

definition defaultServiceFee :: ServiceFee where
  "defaultServiceFee = \<lparr>percentageCut = 0, toAddress = Some ''0.0.98''\<rparr>"

definition initiateSwapNotice :: string where
  "initiateSwapNotice =
     ''Are you sure you want to execute the following swap? Note that the responder will also need to approve the swap by calling \"hts/completeSwap\" API within 30 minutes from now or the transaction will fail.''"

definition completeSwapNotice :: string where
  "completeSwapNotice =
     ''Are you sure you want to execute the following swap? Note that all the parties involved in the swap must approve the swap within 30 minutes from now or the transaction will fail.''"

definition learnMoreAtomicSwap :: string where
  "learnMoreAtomicSwap =
     ''Learn more about atomic swap [here](https://docs.hedera.com/hedera/sdks-and-apis/sdks/token-service/atomic-swaps)''"

definition userRejectedMessage :: string where
  "userRejectedMessage = ''User rejected the transaction''"

text \<open>The swaps and the fee map after the \<^verbatim>\<open>reduce\<close> of \<^verbatim>\<open>initiateSwap\<close>.\<close>

definition requestSwaps :: "InitiateSwapRequestParams \<Rightarrow> AtomicSwap list" where
  "requestSwaps params = (case atomicSwaps params of None \<Rightarrow> [] | Some swaps \<Rightarrow> swaps)"

definition requestServiceFee :: "InitiateSwapRequestParams \<Rightarrow> ServiceFee" where
  "requestServiceFee params = (case serviceFee params of None \<Rightarrow> defaultServiceFee | Some f \<Rightarrow> f)"

definition serviceFeesToPay :: "InitiateSwapRequestParams \<Rightarrow> (string \<times> number) list" where
  "serviceFeesToPay params =
     fst (reduceServiceFees (requestServiceFee params) [] (transfersOf (requestSwaps params)))"

definition swapsAfterFees :: "InitiateSwapRequestParams \<Rightarrow> AtomicSwap list" where
  "swapsAfterFees params =
     writeBack (requestSwaps params)
       (snd (reduceServiceFees (requestServiceFee params) [] (transfersOf (requestSwaps params))))"

text \<open>The panel of \<^verbatim>\<open>initiateSwap\<close> before the loop over the swaps.\<close>

definition initiateSwapHeader :: "env \<Rightarrow> InitiateSwapRequestParams \<Rightarrow> component list" where
  "initiateSwapHeader env params =
     initializePanelToShow env
       @ [Heading ''Initiate Atomic Swap'', Text learnMoreAtomicSwap,
          Text initiateSwapNotice, Divider]
       @ (if stripMemo (swapMemo params) \<noteq> []
          then [Text ''Memo:'', Copyable (stripMemo (swapMemo params))]
          else [])
       @ (case maxFee params of
            None \<Rightarrow> []
          | Some f \<Rightarrow>
              if f \<noteq> 0
              then [Text (''Max Transaction Fee: '' @ jsString env (Fin f) @ '' Hbar'')]
              else [])"

definition initiateSwap :: "env \<Rightarrow> WalletSnapParams \<Rightarrow> InitiateSwapRequestParams \<Rightarrow> TxRecord run" where
  "initiateSwap env walletSnapParams params =
     (let acct = currentAccount (state walletSnapParams);
          ks = keyStore (accountState (state walletSnapParams) (hederaEvmAddress acct) (network acct))
      in
      bind (callCreateClient env (hederaAccountId acct) (network acct) (curve ks) (privateKey ks))
        (\<lambda>hederaClient.
      case hederaClient of
        None \<Rightarrow> throw (resourceUnavailable ''hedera client returned null'')
      | Some client \<Rightarrow>
          tryCatch
            (bind (callGetMirrorAccountInfo env (hederaAccountId acct) (mirrorNodeUrl acct)) (\<lambda>_.
             bind (swapDialogs env (hederaAccountId acct) (mirrorNodeUrl acct)
                     (serviceFeesToPay params) 0 (swapsAfterFees params)
                     (initiateSwapHeader env params)) (\<lambda>(swaps, panel).
             bind (callSnapDialog env
                     (DialogParams ''confirmation''
                        (CommonPanel (origin walletSnapParams) (network acct) (mirrorNodeUrl acct) panel)))
               (\<lambda>confirmed.
             bind (if \<not> confirmed
                   then bind (consoleError [userRejectedMessage]) (\<lambda>_.
                        throw (transactionRejected userRejectedMessage))
                   else return ()) (\<lambda>_.
             bind (callCommand env
                     (AtomicSwapCommand swaps (swapMemo params) (maxFee params)
                        (serviceFeesToPay params) (toAddress (requestServiceFee params)))
                     initiateSwapMethod (getClient client)) (\<lambda>txReceipt.
             bind (emit (SnapCreateDialogAfterTransaction (network acct) txReceipt)) (\<lambda>_.
             return txReceipt)))))))
            (\<lambda>error.
             bind (consoleError [''Error occurred: %s'', ''Error while trying to initiate atomic swap'',
                                 errorString env error]) (\<lambda>_.
             bind (emit (SnapNotification
                     (''Error occurred: '' @ ''Error while trying to initiate atomic swap''
                        @ '' - '' @ errorString env error))) (\<lambda>_.
             throw (transactionRejected ''Error while trying to initiate atomic swap''))))))"

definition completeSwapPanel :: "env \<Rightarrow> SignScheduledTxParams \<Rightarrow> component list" where
  "completeSwapPanel env params =
     initializePanelToShow env
       @ [Heading ''Complete Atomic Swap'', Text learnMoreAtomicSwap,
          Text completeSwapNotice, Divider]
       @ [Text ''Atomic Swap Scheduled Transaction ID:'', Copyable (scheduleId params)]
       @ [Divider]"

definition completeSwap :: "env \<Rightarrow> WalletSnapParams \<Rightarrow> SignScheduledTxParams \<Rightarrow> TxRecord run" where
  "completeSwap env walletSnapParams params =
     (let acct = currentAccount (state walletSnapParams);
          ks = keyStore (accountState (state walletSnapParams) (hederaEvmAddress acct) (network acct))
      in
      bind (callCreateClient env (hederaAccountId acct) (network acct) (curve ks) (privateKey ks))
        (\<lambda>hederaClient.
      case hederaClient of
        None \<Rightarrow> throw (resourceUnavailable ''hedera client returned null'')
      | Some client \<Rightarrow>
          tryCatch
            (bind (callSnapDialog env
                     (DialogParams ''confirmation''
                        (CommonPanel (origin walletSnapParams) (network acct) (mirrorNodeUrl acct)
                           (completeSwapPanel env params))))
               (\<lambda>confirmed.
             bind (if \<not> confirmed
                   then bind (consoleError [userRejectedMessage]) (\<lambda>_.
                        throw (transactionRejected userRejectedMessage))
                   else return ()) (\<lambda>_.
             bind (callCommand env (AtomicSwapCommand [] None None [] None)
                     (completeSwapMethod (scheduleId params)) (getClient client)) (\<lambda>txReceipt.
             bind (emit (SnapCreateDialogAfterTransaction (network acct) txReceipt)) (\<lambda>_.
             return txReceipt)))))
            (\<lambda>error.
             bind (consoleError [''Error occurred: %s'', ''Error while trying to complete atomic swap'',
                                 errorString env error]) (\<lambda>_.
             bind (emit (SnapNotification
                     (''Error occurred: '' @ ''Error while trying to complete atomic swap''
                        @ '' - '' @ errorString env error))) (\<lambda>_.
             throw (transactionRejected ''Error while trying to complete atomic swap''))))))"

subsection \<open>CreateTopicFacade\<close>

definition createTopicPanel :: "env \<Rightarrow> CreateTopicRequestParams \<Rightarrow> component list" where
  "createTopicPanel env params =
     [Heading ''Create a new topic'',
      Text ''Learn more about creating topics [here](https://docs.hedera.com/hedera/sdks-and-apis/hedera-api/consensus/consensuscreatetopic)'',
      Text ''You are about to create a new topic with the following parameters:'',
      Divider]
     @ (case memo params of None \<Rightarrow> [] | Some m \<Rightarrow> [Text (''Memo: '' @ m)])
     @ (case adminKey params of None \<Rightarrow> [] | Some k \<Rightarrow> [Text ''Admin Key:'', Copyable k])
     @ (case submitKey params of None \<Rightarrow> [] | Some k \<Rightarrow> [Text ''Submit Key:'', Copyable k])
     @ (case autoRenewPeriod params of
          None \<Rightarrow> []
        | Some p \<Rightarrow> [Text (''Auto Renew Period: '' @ jsString env (Fin p))])
     @ (case autoRenewAccount params of
          None \<Rightarrow> []
        | Some a \<Rightarrow> [Text ''Auto Renew Account:'', Copyable a])"

definition createTopic :: "env \<Rightarrow> WalletSnapParams \<Rightarrow> CreateTopicRequestParams \<Rightarrow> TxRecord run" where
  "createTopic env walletSnapParams params =
     (let acct = currentAccount (state walletSnapParams);
          ks = keyStore (accountState (state walletSnapParams) (hederaEvmAddress acct) (network acct))
      in
      tryCatch
        (bind (callSnapDialog env
                 (DialogParams ''confirmation''
                    (CommonPanel (origin walletSnapParams) (network acct) (mirrorNodeUrl acct)
                       (createTopicPanel env params))))
           (\<lambda>confirmed.
         bind (if \<not> confirmed
               then bind (consoleError [userRejectedMessage]) (\<lambda>_.
                    throw (transactionRejected userRejectedMessage))
               else return ()) (\<lambda>_.
         bind (callCreateClient env (hederaAccountId acct) (network acct) (curve ks) (privateKey ks))
           (\<lambda>hederaClient.
         case hederaClient of
           None \<Rightarrow> throw (resourceUnavailable ''hedera client returned null'')
         | Some client \<Rightarrow>
             callCommand env
               (CreateTopicCommand (memo params) (adminKey params) (submitKey params)
                  (autoRenewPeriod params) (autoRenewAccount params))
               execute (getClient client)))))
        (\<lambda>error.
         bind (consoleError [''Error occurred: %s'', ''Error while trying to create a topic'',
                             errorString env error]) (\<lambda>_.
         throw (transactionRejected ''Error while trying to create a topic''))))"

subsection \<open>AssociateTokensFacade\<close>

definition supplyString :: "env \<Rightarrow> string \<Rightarrow> string \<Rightarrow> string" where
  "supplyString env supply decs =
     jsString env (jsDivide env (jsNumber env supply) (jsPow env (Fin 10) (jsNumber env decs)))"

text \<open>
  The loop over \<^verbatim>\<open>tokenIds\<close>; \<open>all\<close> is the whole array, in which
  \<^verbatim>\<open>tokenIds.indexOf(tokenId)\<close> looks the token up.
\<close>

fun tokenPanels :: "env \<Rightarrow> string \<Rightarrow> string list \<Rightarrow> string list \<Rightarrow> component list \<Rightarrow> component list run" where
  "tokenPanels env url all [] panel = return panel"
| "tokenPanels env url all (tid # tids) panel =
     bind (callGetTokenById env tid url) (\<lambda>tokenInfo.
     bind (case tokenInfo of
             None \<Rightarrow>
               bind (consoleError [tokenInfoErrorMessage tid]) (\<lambda>_.
               return
                 (panel
                    @ [Text (''Token #'' @ jsString env (Fin (real_of_int (indexOf all tid + 1)))),
                       Divider, Text ''Asset Id:'', Copyable tid]
                    @ [Text (tokenInfoErrorMessage tid),
                       Text ''Proceed only if you are sure this asset ID exists'']
                    @ [Divider]))
           | Some ti \<Rightarrow>
               return
                 (panel
                    @ [Text (''Token #'' @ jsString env (Fin (real_of_int (indexOf all tid + 1)))),
                       Divider, Text ''Asset Id:'', Copyable tid]
                    @ [Text (''Asset Name: '' @ token_name ti),
                       Text (''Asset Type: '' @ token_type ti),
                       Text (''Symbol: '' @ token_symbol ti),
                       Text (''Total Supply: '' @ supplyString env (total_supply ti) (token_decimals ti)),
                       Text (''Max Supply: '' @ supplyString env (max_supply ti) (token_decimals ti))]
                    @ [Divider])) (\<lambda>panel1.
     tokenPanels env url all tids panel1))"

definition requestTokenIds :: "AssociateTokensRequestParams \<Rightarrow> string list" where
  "requestTokenIds params = (case tokenIds params of None \<Rightarrow> [] | Some tids \<Rightarrow> tids)"

definition associateTokensHeader :: "env \<Rightarrow> component list" where
  "associateTokensHeader env =
     initializePanelToShow env
       @ [Heading ''Associate Tokens'',
          Text ''Are you sure you want to associate the following tokens to your account?'',
          Divider]"

definition associateTokens :: "env \<Rightarrow> WalletSnapParams \<Rightarrow> AssociateTokensRequestParams \<Rightarrow> TxRecord run" where
  "associateTokens env walletSnapParams params =
     (let acct = currentAccount (state walletSnapParams);
          ks = keyStore (accountState (state walletSnapParams) (hederaEvmAddress acct) (network acct))
      in
      tryCatch
        (bind (tokenPanels env (mirrorNodeUrl acct) (requestTokenIds params) (requestTokenIds params)
                 (associateTokensHeader env)) (\<lambda>panel.
         bind (callSnapDialog env
                 (DialogParams ''confirmation''
                    (CommonPanel (origin walletSnapParams) (network acct) (mirrorNodeUrl acct) panel)))
           (\<lambda>confirmed.
         bind (if \<not> confirmed
               then bind (consoleError [userRejectedMessage]) (\<lambda>_.
                    throw (transactionRejected userRejectedMessage))
               else return ()) (\<lambda>_.
         bind (callCreateClient env (hederaAccountId acct) (network acct) (curve ks) (privateKey ks))
           (\<lambda>hederaClient.
         case hederaClient of
           None \<Rightarrow> throw (resourceUnavailable ''hedera client returned null'')
         | Some client \<Rightarrow>
             bind (callCommand env (AssociateTokensCommand (requestTokenIds params))
                     execute (getClient client)) (\<lambda>txReceipt.
             bind (emit (SnapCreateDialogAfterTransaction (network acct) txReceipt)) (\<lambda>_.
             return txReceipt)))))))
        (\<lambda>error.
         bind (consoleError [''Error occurred: %s'',
                             ''Error while trying to associate tokens to the account'',
                             errorString env error]) (\<lambda>_.
         bind (emit (SnapNotification
                 (''Error occurred: '' @ ''Error while trying to associate tokens to the account''
                    @ '' - '' @ errorString env error))) (\<lambda>_.
         throw (transactionRejected ''Error while trying to associate tokens to the account'')))))"

subsection \<open>StakeHbarFacade\<close>

definition stakeHbarHeader :: "env \<Rightarrow> component list" where
  "stakeHbarHeader env =
     initializePanelToShow env
       @ [Heading ''Stake/Unstake HBAR'',
          Text ''Refer to this [guide](https://docs.hedera.com/hedera/core-concepts/staking) for more information on staking HBAR'',
          Divider]"

definition nodePanel :: "env \<Rightarrow> MirrorStakingInfo \<Rightarrow> component list" where
  "nodePanel env info =
     [Text (''Node Description: '' @ description info),
      Text (''Node ID: '' @ jsString env (Fin (node_id info))),
      Text (''Node Account ID: '' @ node_account_id info),
      Text (''Total Stake: '' @ hbarFromTinybarString env (stake info)),
      Text (''Staking Start: '' @ timestampToString env (staking_period_from info)),
      Text (''Staking End: '' @ timestampToString env (staking_period_to info))]"

text \<open>
  The part of \<^verbatim>\<open>stakeHbar\<close> before the dialog. It yields the panel and the three local
  variables \<^verbatim>\<open>stakedAccountId\<close>, \<^verbatim>\<open>stakedNodeId\<close> and \<^verbatim>\<open>declineStakingReward\<close>, which
  start as the staking info of the wallet state has them.
\<close>

definition stakeHbarPlan ::
  "env \<Rightarrow> string \<Rightarrow> StakingInfo \<Rightarrow> StakeHbarRequestParams
     \<Rightarrow> (component list \<times> string option \<times> string option \<times> bool) run" where
  "stakeHbarPlan env url si params =
     (if nodeId params = None \<and> accountId params = None
      then return
             (stakeHbarHeader env
                @ [Text ''You are about to unstake your HBAR so you will not be receiving any staking rewards from here on out.''],
              stakedAccountId si, stakedNodeId si, True)
      else if nodeId params \<noteq> None \<and> accountId params \<noteq> None
      then throw (methodNotSupported ''Cannot stake to both a node and an account'')
      else
      bind (case nodeId params of
              None \<Rightarrow>
                return
                  (stakeHbarHeader env
                     @ [Text ''You are about to stake your HBAR to the following:'', Divider],
                   stakedNodeId si)
            | Some n \<Rightarrow>
                bind (callGetNodeStakingInfo env url n) (\<lambda>infos.
                case infos of
                  [] \<Rightarrow>
                    throw (methodNotSupported
                             (''Node ID '' @ jsString env (Fin n) @ '' does not exist''))
                | info # _ \<Rightarrow>
                    return
                      (stakeHbarHeader env
                         @ [Text ''You are about to stake your HBAR to the following:'', Divider]
                         @ nodePanel env info,
                       Some (jsString env (Fin n))))) (\<lambda>(panel, stakedNode).
      return
        (case accountId params of
           None \<Rightarrow> (panel @ [Divider], stakedAccountId si, stakedNode, False)
         | Some a \<Rightarrow>
             if a \<noteq> []
             then (panel @ [Text ''Account ID:'', Copyable a] @ [Divider], Some a, stakedNode, False)
             else (panel @ [Divider], stakedAccountId si, stakedNode, False))))"

text \<open>The three assignments to the staking info of the current account and network.\<close>

definition setStakingInfo :: "SnapState \<Rightarrow> string option \<Rightarrow> string option \<Rightarrow> bool \<Rightarrow> SnapState" where
  "setStakingInfo st stakedAccount stakedNode decline =
     (let addr = hederaEvmAddress (currentAccount st);
          nw = network (currentAccount st);
          was = accountState st addr nw;
          info = accountInfo was
      in st\<lparr>accountState :=
           (accountState st)
             (addr := (accountState st addr)
                (nw := was\<lparr>accountInfo :=
                         info\<lparr>stakingInfo :=
                           (stakingInfo info)\<lparr>stakedAccountId := stakedAccount,
                                               stakedNodeId := stakedNode,
                                               declineStakingReward := decline\<rparr>\<rparr>\<rparr>))\<rparr>)"

definition stakeHbar :: "env \<Rightarrow> WalletSnapParams \<Rightarrow> StakeHbarRequestParams \<Rightarrow> TxRecord run" where
  "stakeHbar env walletSnapParams params =
     (let acct = currentAccount (state walletSnapParams);
          was = accountState (state walletSnapParams) (hederaEvmAddress acct) (network acct);
          ks = keyStore was
      in
      tryCatch
        (bind (stakeHbarPlan env (mirrorNodeUrl acct) (stakingInfo (accountInfo was)) params)
           (\<lambda>(panel, stakedAccount, stakedNode, decline).
         bind (callSnapDialog env
                 (DialogParams ''confirmation''
                    (CommonPanel (origin walletSnapParams) (network acct) (mirrorNodeUrl acct) panel)))
           (\<lambda>confirmed.
         bind (if \<not> confirmed
               then bind (consoleError [userRejectedMessage]) (\<lambda>_.
                    throw (transactionRejected userRejectedMessage))
               else return ()) (\<lambda>_.
         bind (callCreateClient env (hederaAccountId acct) (network acct) (curve ks) (privateKey ks))
           (\<lambda>hederaClient.
         case hederaClient of
           None \<Rightarrow> throw (resourceUnavailable ''hedera client returned null'')
         | Some client \<Rightarrow>
             bind (callCommand env (StakeHbarCommand (nodeId params) (accountId params))
                     execute (getClient client)) (\<lambda>txReceipt.
             bind (emit (SnapCreateDialogAfterTransaction (network acct) txReceipt)) (\<lambda>_.
             bind (emit (UpdateState
                     (setStakingInfo (state walletSnapParams) stakedAccount stakedNode decline)))
               (\<lambda>_.
             return txReceipt))))))))
        (\<lambda>error.
         bind (consoleError [''Error occurred: %s'', ''Error while trying to stake Hbar'',
                             errorString env error]) (\<lambda>_.
         bind (emit (SnapNotification
                 (''Error occurred: '' @ ''Error while trying to stake Hbar''
                    @ '' - '' @ errorString env error))) (\<lambda>_.
         throw (transactionRejected ''Error while trying to stake Hbar'')))))"

subsection \<open>UpdateTokenFeeScheduleFacade\<close>

definition customFeePanel :: "env \<Rightarrow> TokenCustomFee \<Rightarrow> component list" where
  "customFeePanel env fee =
     [Text ''Fee Collection Id:'', Copyable (feeCollectorAccountId fee)]
     @ (case hbarAmount fee of
          None \<Rightarrow> []
        | Some h \<Rightarrow> if h \<noteq> 0 then [Text (''Hbar Amount: '' @ jsString env (Fin h))] else [])
     @ (case tokenAmount fee of
          None \<Rightarrow> []
        | Some t \<Rightarrow> if t \<noteq> 0 then [Text (''Token Amount: '' @ jsString env (Fin t))] else [])
     @ (case denominatingTokenId fee of
          None \<Rightarrow> []
        | Some d \<Rightarrow> if d \<noteq> [] then [Text ''Denominating Token Id:'', Copyable d] else [])
     @ (case allCollectorsAreExempt fee of
          None \<Rightarrow> []
        | Some b \<Rightarrow> if b then [Text (''All Collectors Are Exempt: '' @ ''true'')] else [])"

definition updateTokenFeeSchedulePanel :: "env \<Rightarrow> string \<Rightarrow> TokenCustomFee list \<Rightarrow> component list" where
  "updateTokenFeeSchedulePanel env tid fees =
     [Heading ''Update token fee schedule'',
      Text ''Learn more about updating a token fee schedule [here](https://docs.hedera.com/hedera/sdks-and-apis/sdks/readme-1/update-a-fee-schedule)'',
      Text ''You are about to modify a token's fee schedule with the following details:'',
      Divider,
      Text ''Asset Id:'',
      Copyable tid]
     @ concat (map (customFeePanel env) fees)"

text \<open>\<^verbatim>\<open>Number(mirrorTokenInfo.decimals)\<close>; the field of an empty answer is \<^verbatim>\<open>undefined\<close>.\<close>

definition mirrorDecimals :: "env \<Rightarrow> MirrorTokenInfo option \<Rightarrow> number" where
  "mirrorDecimals env mirrorTokenInfo =
     (case mirrorTokenInfo of None \<Rightarrow> NaN | Some ti \<Rightarrow> jsNumber env (token_decimals ti))"

definition updateTokenFeeSchedule ::
  "env \<Rightarrow> WalletSnapParams \<Rightarrow> UpdateTokenFeeScheduleRequestParams \<Rightarrow> TxRecord run" where
  "updateTokenFeeSchedule env walletSnapParams params =
     (case customFees params of
        None \<Rightarrow>
          bind (consoleError [''null custom fee schedule given'']) (\<lambda>_.
          throw (invalidParams ''null custom fee schedule given''))
      | Some fees \<Rightarrow>
          (let acct = currentAccount (state walletSnapParams);
               ks = keyStore (accountState (state walletSnapParams) (hederaEvmAddress acct) (network acct))
           in
           bind (callGetTokenById env (tokenId params) (mirrorNodeUrl acct)) (\<lambda>mirrorTokenInfo.
           tryCatch
             (bind (callSnapDialog env
                      (DialogParams ''confirmation''
                         (CommonPanel (origin walletSnapParams) (network acct) (mirrorNodeUrl acct)
                            (updateTokenFeeSchedulePanel env (tokenId params) fees))))
                (\<lambda>confirmed.
              bind (if \<not> confirmed
                    then bind (consoleError [userRejectedMessage]) (\<lambda>_.
                         throw (transactionRejected userRejectedMessage))
                    else return ()) (\<lambda>_.
              bind (callCreateClient env (hederaAccountId acct) (network acct) (curve ks) (privateKey ks))
                (\<lambda>hederaClient.
              case hederaClient of
                None \<Rightarrow> throw (resourceUnavailable ''hedera client returned null'')
              | Some client \<Rightarrow>
                  (case getPrivateKey client of
                     None \<Rightarrow> throw (resourceUnavailable ''private key object returned null'')
                   | Some privateKeyObj \<Rightarrow>
                       bind (callCommand env
                               (UpdateTokenFeeScheduleCommand (tokenId params) privateKeyObj
                                  (mirrorDecimals env mirrorTokenInfo) fees)
                               execute (getClient client)) (\<lambda>txReceipt.
                       bind (emit (SnapCreateDialogAfterTransaction (network acct) txReceipt)) (\<lambda>_.
                       return txReceipt)))))))
             (\<lambda>error.
              bind (consoleError [''Error occurred: %s'',
                                  ''Error while trying to update a token fee schedule'',
                                  errorString env error]) (\<lambda>_.
              bind (emit (SnapNotification
                      (''Error occurred: '' @ ''Error while trying to update a token fee schedule''
                         @ '' - '' @ errorString env error))) (\<lambda>_.
              throw (transactionRejected ''Error while trying to update a token fee schedule'')))))))"

subsection \<open>Predicates on runs\<close>

text \<open>Kinds of events.\<close>

fun isDialog :: "event \<Rightarrow> bool" where
  "isDialog (SnapDialog dp) = True"
| "isDialog ev = False"

fun isCommandCall :: "event \<Rightarrow> bool" where
  "isCommandCall (CommandCall c m cl) = True"
| "isCommandCall ev = False"

fun isCreateClient :: "event \<Rightarrow> bool" where
  "isCreateClient (CreateClient a n c p) = True"
| "isCreateClient ev = False"

fun isUpdateState :: "event \<Rightarrow> bool" where
  "isUpdateState (UpdateState st) = True"
| "isUpdateState ev = False"

text \<open>A dialog that the user confirmed, and one that the user did not confirm.\<close>

fun confirmedDialog :: "env \<Rightarrow> event \<Rightarrow> bool" where
  "confirmedDialog env (SnapDialog dp) = snapDialog env dp"
| "confirmedDialog env ev = False"

fun rejectedDialog :: "env \<Rightarrow> event \<Rightarrow> bool" where
  "rejectedDialog env (SnapDialog dp) = (\<not> snapDialog env dp)"
| "rejectedDialog env ev = False"

text \<open>The mirror-node lookups and the console: what the loops that fill a panel do.\<close>

fun isLookup :: "event \<Rightarrow> bool" where
  "isLookup (GetMirrorAccountInfo a u) = True"
| "isLookup (GetTokenById t u) = True"
| "isLookup (GetNodeStakingInfo u n) = True"
| "isLookup (ConsoleError args) = True"
| "isLookup ev = False"

definition lookupsOnly :: "'a run \<Rightarrow> bool" where
  "lookupsOnly m = list_all isLookup (trace m)"

definition major :: "(event \<Rightarrow> bool) \<Rightarrow> bool" where
  "major p = (\<forall>ev. isLookup ev \<longrightarrow> \<not> p ev)"

text \<open>
  \<open>before p q evs\<close>: every event of \<open>evs\<close> that satisfies \<open>q\<close> comes after an event
  that satisfies \<open>p\<close>.
\<close>

fun before :: "(event \<Rightarrow> bool) \<Rightarrow> (event \<Rightarrow> bool) \<Rightarrow> event list \<Rightarrow> bool" where
  "before p q [] = True"
| "before p q (ev # evs) = (\<not> q ev \<and> (p ev \<or> before p q evs))"

text \<open>\<open>adjacent a b xs\<close>: \<open>a\<close> stands in \<open>xs\<close> with \<open>b\<close> right after it.\<close>

fun adjacent :: "'a \<Rightarrow> 'a \<Rightarrow> 'a list \<Rightarrow> bool" where
  "adjacent a b (x # y # zs) = ((x = a \<and> y = b) \<or> adjacent a b (y # zs))"
| "adjacent a b zs = False"

text \<open>\<open>yields m P\<close>: when the run \<open>m\<close> returns, what it returns satisfies \<open>P\<close>.\<close>

definition yields :: "'a run \<Rightarrow> ('a \<Rightarrow> bool) \<Rightarrow> bool" where
  "yields m P = (case result m of Inl e \<Rightarrow> True | Inr x \<Rightarrow> P x)"

fun isTransactionRejected :: "error + 'a \<Rightarrow> bool" where
  "isTransactionRejected (Inl (transactionRejected m)) = True"
| "isTransactionRejected r = False"

text \<open>A dialog of \<^verbatim>\<open>createTxDialog\<close> keeps the receiver and the amount of the transfer and only adds to the panel.\<close>

definition keeps :: "SimpleTransfer \<Rightarrow> component list \<Rightarrow> SimpleTransfer \<Rightarrow> component list \<Rightarrow> bool" where
  "keeps t panel t1 panel1 = (to t1 = to t \<and> amount t1 = amount t \<and> (\<exists>ext. panel1 = panel @ ext))"

text \<open>
  What the loop over the swaps has done when it ends: the amounts are those it was given,
  every responder transfer goes to the account \<open>a\<close>, the panel has only grown, and for
  every swap the panel names, as the responder, the account that the requester sends to.
\<close>

definition swapsDone ::
  "string \<Rightarrow> AtomicSwap list \<Rightarrow> component list \<Rightarrow> AtomicSwap list \<Rightarrow> component list \<Rightarrow> bool" where
  "swapsDone a swaps panel swaps1 panel1 =
     (map amount (transfersOf swaps1) = map amount (transfersOf swaps)
      \<and> list_all (\<lambda>s. to (responder s) = a) swaps1
      \<and> (\<exists>ext. panel1 = panel @ ext)
      \<and> list_all (\<lambda>s. adjacent (Text ''Swap Responder'') (Copyable (to (requester s))) panel1) swaps)"

text \<open>What the \<^verbatim>\<open>reduce\<close> does to one transfer: half of the fee is taken off the amount.\<close>

definition deductHalfFee :: "ServiceFee \<Rightarrow> SimpleTransfer \<Rightarrow> SimpleTransfer" where
  "deductHalfFee svcFee transfer = transfer\<lparr>amount := amount transfer - feeOf svcFee transfer / 2\<rparr>"

definition allZero :: "(string \<times> number) list \<Rightarrow> bool" where
  "allZero acc = list_all (\<lambda>kv. snd kv = Fin 0) acc"

text \<open>
  The order of calls that the specification states for every facade, on a run that goes
  through: the client is built, then the dialog is shown, then the command is called, then
  the state is persisted.
\<close>

definition fixedOrder :: "event list \<Rightarrow> bool" where
  "fixedOrder evs =
     (before isCreateClient isDialog evs \<and> before isDialog isCommandCall evs
      \<and> before isCommandCall isUpdateState evs \<and> list_ex isUpdateState evs)"

text \<open>The two orders of calls that the facades have.\<close>

definition dialogClientCommand :: "env \<Rightarrow> event list \<Rightarrow> bool" where
  "dialogClientCommand env evs =
     (before (confirmedDialog env) isCreateClient evs \<and> before isCreateClient isCommandCall evs)"

definition clientDialogCommand :: "env \<Rightarrow> event list \<Rightarrow> bool" where
  "clientDialogCommand env evs =
     (before isCreateClient isDialog evs \<and> before (confirmedDialog env) isCommandCall evs)"

text \<open>
  \<open>answeredBy env meth receipt ev\<close>: the event is the call of the method \<open>meth\<close> of a
  command, and the command answered with \<open>receipt\<close>.
\<close>

fun answeredBy :: "env \<Rightarrow> commandMethod \<Rightarrow> TxRecord \<Rightarrow> event \<Rightarrow> bool" where
  "answeredBy env meth receipt (CommandCall c m cl) = (m = meth \<and> runCommand env c m cl = Inr receipt)"
| "answeredBy env meth receipt ev = False"

definition returnsReceiptOf :: "env \<Rightarrow> commandMethod \<Rightarrow> TxRecord run \<Rightarrow> bool" where
  "returnsReceiptOf env meth r =
     (case result r of
        Inl e \<Rightarrow> True
      | Inr receipt \<Rightarrow> list_ex (answeredBy env meth receipt) (trace r))"

definition rejectsWithoutCommand :: "env \<Rightarrow> TxRecord run \<Rightarrow> bool" where
  "rejectsWithoutCommand env r =
     ((list_ex (rejectedDialog env) (trace r) \<longrightarrow>
         isTransactionRejected (result r) \<and> \<not> list_ex isCommandCall (trace r))
      \<and> before (confirmedDialog env) isCommandCall (trace r))"

text \<open>
  What \<^verbatim>\<open>stakeHbar\<close> plans to persist: \<open>sa\<close>, \<open>sn\<close> and \<open>d\<close> are the local variables
  \<^verbatim>\<open>stakedAccountId\<close>, \<^verbatim>\<open>stakedNodeId\<close> and \<^verbatim>\<open>declineStakingReward\<close> at the dialog.
\<close>

definition stakingPlanned :: "env \<Rightarrow> StakingInfo \<Rightarrow> StakeHbarRequestParams
    \<Rightarrow> string option \<Rightarrow> string option \<Rightarrow> bool \<Rightarrow> bool" where
  "stakingPlanned env si p sa sn d =
     ((\<forall>n. nodeId p = Some n \<longrightarrow> sn = Some (jsString env (Fin n)))
      \<and> (nodeId p = None \<longrightarrow> sn = stakedNodeId si)
      \<and> (\<forall>a. accountId p = Some a \<and> a \<noteq> [] \<longrightarrow> sa = Some a)
      \<and> (accountId p = None \<or> accountId p = Some [] \<longrightarrow> sa = stakedAccountId si)
      \<and> d = (nodeId p = None \<and> accountId p = None))"

text \<open>The panel of every dialog of a trace, and the fee map of every swap command called.\<close>

fun dialogPanels :: "event list \<Rightarrow> component list list" where
  "dialogPanels [] = []"
| "dialogPanels (SnapDialog dp # evs) = panelToShow (content dp) # dialogPanels evs"
| "dialogPanels (ev # evs) = dialogPanels evs"

fun commandFees :: "event list \<Rightarrow> (string \<times> number) list list" where
  "commandFees [] = []"
| "commandFees (CommandCall (AtomicSwapCommand swaps m f fees addr) meth cl # evs) = fees # commandFees evs"
| "commandFees (ev # evs) = commandFees evs"

text \<open>
  The staking info of the current account and network in every state that a trace hands
  to \<^verbatim>\<open>SnapState.updateState\<close>.
\<close>

fun persistedStakingInfo :: "event list \<Rightarrow> StakingInfo list" where
  "persistedStakingInfo [] = []"
| "persistedStakingInfo (UpdateState st # evs) =
     stakingInfo (accountInfo (accountState st (hederaEvmAddress (currentAccount st))
                                 (network (currentAccount st))))
       # persistedStakingInfo evs"
| "persistedStakingInfo (ev # evs) = persistedStakingInfo evs"

fun returns :: "error + 'a \<Rightarrow> bool" where
  "returns (Inr x) = True"
| "returns (Inl e) = False"

text \<open>
  The segment of the panel of \<^verbatim>\<open>associateTokens\<close> for one token: its number, a divider
  and its asset id; the warning when the mirror node answered the empty object, the name,
  type, symbol and supplies when it answered a token; a divider.
\<close>

definition tokenSegment :: "env \<Rightarrow> string \<Rightarrow> string list \<Rightarrow> string \<Rightarrow> component list" where
  "tokenSegment env url all tid =
     [Text (''Token #'' @ jsString env (Fin (real_of_int (indexOf all tid + 1)))),
      Divider, Text ''Asset Id:'', Copyable tid]
     @ (case getTokenById env tid url of
          Inl e \<Rightarrow> []
        | Inr None \<Rightarrow>
            [Text (tokenInfoErrorMessage tid),
             Text ''Proceed only if you are sure this asset ID exists'']
        | Inr (Some ti) \<Rightarrow>
            [Text (''Asset Name: '' @ token_name ti),
             Text (''Asset Type: '' @ token_type ti),
             Text (''Symbol: '' @ token_symbol ti),
             Text (''Total Supply: '' @ supplyString env (total_supply ti) (token_decimals ti)),
             Text (''Max Supply: '' @ supplyString env (max_supply ti) (token_decimals ti))])
     @ [Divider]"

text \<open>
  What the fee map holds, read off the \<^verbatim>\<open>reduce\<close>. \<open>plainAssetId\<close>: the asset id of a
  token or NFT transfer is not one of the names of the asset types (the keys that the guard
  of the \<^verbatim>\<open>reduce\<close> reads). \<open>hbarFees\<close> is the sum of the fees of the HBAR transfers,
  \<open>assetTransfers k\<close> are the token and NFT transfers of the asset \<open>k\<close>.
\<close>

definition plainAssetId :: "SimpleTransfer \<Rightarrow> bool" where
  "plainAssetId t = (assetType t = HBAR \<or> assetIdStr t \<notin> set [''HBAR'', ''TOKEN'', ''NFT''])"

definition hbarFees :: "ServiceFee \<Rightarrow> SimpleTransfer list \<Rightarrow> real" where
  "hbarFees svcFee ts = sum_list (map (feeOf svcFee) (filter (\<lambda>t. assetType t = HBAR) ts))"

definition assetTransfers :: "string \<Rightarrow> SimpleTransfer list \<Rightarrow> SimpleTransfer list" where
  "assetTransfers k ts = filter (\<lambda>t. assetType t \<noteq> HBAR \<and> assetIdStr t = k) ts"

text \<open>The accumulator while the \<^verbatim>\<open>reduce\<close> runs: its HBAR entry, and what it never holds.\<close>

definition hbarOf :: "(string \<times> number) list \<Rightarrow> real" where
  "hbarOf acc = (case map_of acc ''HBAR'' of Some (Fin x) \<Rightarrow> x | _ \<Rightarrow> 0)"

definition accOk :: "(string \<times> number) list \<Rightarrow> bool" where
  "accOk acc = (map_of acc ''TOKEN'' = None \<and> map_of acc ''NFT'' = None \<and> map_of acc ''HBAR'' \<noteq> Some NaN)"

subsection \<open>A wallet, a mirror node and requests to run the facades on\<close>

definition sampleAccount :: Account where
  "sampleAccount =
     \<lparr>hederaAccountId = ''0.0.1001'', hederaEvmAddress = ''0xabc'', network = ''testnet'',
      mirrorNodeUrl = ''https://testnet.mirrornode.hedera.com''\<rparr>"

definition sampleAccountInfo :: AccountInfo where
  "sampleAccountInfo =
     \<lparr>balance = \<lparr>hbars = 1000,
                 tokens = (\<lambda>k. if k = ''0.0.5'' then Some \<lparr>tokenBalance = 5000, tokenDecimals = 2\<rparr> else None)\<rparr>,
      stakingInfo = \<lparr>stakedAccountId = None, stakedNodeId = None, declineStakingReward = False\<rparr>\<rparr>"

definition sampleWallet :: WalletSnapParams where
  "sampleWallet =
     \<lparr>origin = ''https://dapp.example'',
      state = \<lparr>currentAccount = sampleAccount,
               accountState = (\<lambda>addr nw. \<lparr>keyStore = \<lparr>privateKey = ''302e'', curve = ''ED25519''\<rparr>,
                                          accountInfo = sampleAccountInfo\<rparr>)\<rparr>\<rparr>"

definition sampleTokenInfo :: MirrorTokenInfo where
  "sampleTokenInfo =
     \<lparr>token_name = ''Gold'', token_type = ''FUNGIBLE_COMMON'', token_symbol = ''GLD'',
      token_decimals = ''2'', total_supply = ''100000'', max_supply = ''500000''\<rparr>"

definition sampleNode :: MirrorStakingInfo where
  "sampleNode =
     \<lparr>description = ''Hosted by a council member'', node_id = 3, node_account_id = ''0.0.6'',
      stake = 100, staking_period_from = ''1700000000.000000000'',
      staking_period_to = ''1700086400.000000000''\<rparr>"

text \<open>
  Collaborators that answer every call; the token \<^verbatim>\<open>0.0.5\<close> is the only one the mirror
  node knows. \<open>answer\<close> is what the user answers to a dialog. The run-time primitives are
  given on the numbers and strings that the runs below meet (\<^verbatim>\<open>Number('100000')\<close>,
  \<^verbatim>\<open>Math.pow(10, 2)\<close>, \<^verbatim>\<open>100000 / 100\<close>, \<^verbatim>\<open>String(1000)\<close>).
\<close>

definition sampleEnv :: "bool \<Rightarrow> env" where
  "sampleEnv answer =
     \<lparr>createClient = (\<lambda>acc nw cv pk. Inr (Some \<lparr>getClient = ''client'', getPrivateKey = Some ''key''\<rparr>)),
      getMirrorAccountInfo = (\<lambda>acc url. Inr sampleAccountInfo),
      getTokenById = (\<lambda>tid url. if tid = ''0.0.5'' then Inr (Some sampleTokenInfo) else Inr None),
      getNodeStakingInfo = (\<lambda>url n. Inr [sampleNode]),
      snapDialog = (\<lambda>dp. answer),
      runCommand = (\<lambda>c m cl. Inr (TxRecord ''receipt'')),
      initializePanelToShow = [],
      formatFeeDisplay = FeeDisplay,
      jsString = (\<lambda>n. if n = Fin 1 then ''1'' else if n = Fin 2 then ''2'' else if n = Fin 3 then ''3''
                       else if n = Fin 1000 then ''1000'' else if n = Fin 5000 then ''5000'' else ''n''),
      jsNumber = (\<lambda>s. if s = ''2'' then Fin 2 else if s = ''100000'' then Fin 100000
                       else if s = ''500000'' then Fin 500000 else NaN),
      jsPow = (\<lambda>a b. if a = Fin 10 \<and> b = Fin 2 then Fin 100 else NaN),
      jsDivide = (\<lambda>a b. case a of
                           NaN \<Rightarrow> NaN
                         | Fin x \<Rightarrow> (case b of NaN \<Rightarrow> NaN | Fin y \<Rightarrow> if y = 100 then Fin (x / 100) else NaN)),
      errorString = (\<lambda>e. ''Error''),
      hbarFromTinybarString = (\<lambda>x. ''h''),
      timestampToString = (\<lambda>s. s)\<rparr>"

definition sampleTopic :: CreateTopicRequestParams where
  "sampleTopic =
     \<lparr>memo = Some ''news'', adminKey = None, submitKey = None, autoRenewPeriod = None,
      autoRenewAccount = None\<rparr>"

definition sampleTokens :: AssociateTokensRequestParams where
  "sampleTokens = \<lparr>tokenIds = Some [''0.0.5'', ''0.0.7'']\<rparr>"

definition sampleStake :: StakeHbarRequestParams where
  "sampleStake = \<lparr>nodeId = Some 3, accountId = None\<rparr>"

definition sampleStakeToAccount :: StakeHbarRequestParams where
  "sampleStakeToAccount = \<lparr>nodeId = None, accountId = Some ''0.0.800''\<rparr>"

definition sampleUnstake :: StakeHbarRequestParams where
  "sampleUnstake = \<lparr>nodeId = None, accountId = None\<rparr>"

definition sampleFeeSchedule :: UpdateTokenFeeScheduleRequestParams where
  "sampleFeeSchedule =
     \<lparr>tokenId = ''0.0.5'',
      customFees = Some [\<lparr>feeCollectorAccountId = ''0.0.1001'', hbarAmount = Some 1, tokenAmount = None,
                          denominatingTokenId = None, allCollectorsAreExempt = None\<rparr>]\<rparr>"

definition sampleSchedule :: SignScheduledTxParams where
  "sampleSchedule = \<lparr>scheduleId = ''0.0.9000''\<rparr>"

definition tokenTransfer :: "real \<Rightarrow> SimpleTransfer" where
  "tokenTransfer x =
     \<lparr>assetType = TOKEN, to = ''0.0.2002'', amount = x, assetId = Some ''0.0.5'', from' = None,
      decimals = None\<rparr>"

definition hbarTransfer :: "real \<Rightarrow> SimpleTransfer" where
  "hbarTransfer x =
     \<lparr>assetType = HBAR, to = ''0.0.3003'', amount = x, assetId = None, from' = None,
      decimals = None\<rparr>"

text \<open>
  Two swaps, each of the token \<^verbatim>\<open>0.0.5\<close> for HBAR, with a service fee of \<open>pct\<close> percent.
\<close>

definition sampleSwaps :: "real \<Rightarrow> InitiateSwapRequestParams" where
  "sampleSwaps pct =
     \<lparr>atomicSwaps = Some [\<lparr>requester = tokenTransfer 100, responder = hbarTransfer 10\<rparr>,
                          \<lparr>requester = tokenTransfer 200, responder = hbarTransfer 20\<rparr>],
      swapMemo = None, maxFee = None,
      serviceFee = Some \<lparr>percentageCut = pct, toAddress = Some ''0.0.98''\<rparr>\<rparr>"

section \<open>Lemmas about runs and about the facades\<close>

subsection \<open>Runs\<close>

lemma result_simps [simp]:
  "result (return x) = Inr x"
  "result (throw e) = Inl e"
  "result (await ev a) = a"
  "result (emit ev) = Inr ()"
  "result (bind m f) = (case result m of Inl e \<Rightarrow> Inl e | Inr x \<Rightarrow> result (f x))"
  "result (tryCatch m h) = (case result m of Inl e \<Rightarrow> result (h e) | Inr x \<Rightarrow> Inr x)"
  by (simp_all add: result_def return_def throw_def await_def emit_def bind_def tryCatch_def
        split: sum.splits)

lemma trace_simps [simp]:
  "trace (return x) = []"
  "trace (throw e) = []"
  "trace (await ev a) = [ev]"
  "trace (emit ev) = [ev]"
  "trace (bind m f) = (case result m of Inl e \<Rightarrow> trace m | Inr x \<Rightarrow> trace m @ trace (f x))"
  "trace (tryCatch m h) = (case result m of Inl e \<Rightarrow> trace m @ trace (h e) | Inr x \<Rightarrow> trace m)"
  by (simp_all add: result_def trace_def return_def throw_def await_def emit_def bind_def tryCatch_def
        split: sum.splits)

lemmas call_defs = callCreateClient_def callGetMirrorAccountInfo_def callGetTokenById_def
  callGetNodeStakingInfo_def callSnapDialog_def callCommand_def consoleError_def

subsection \<open>Lookups\<close>

lemma major_simps [simp]:
  "major isDialog" "major isCommandCall" "major isCreateClient" "major isUpdateState"
  "major (confirmedDialog env)" "major (rejectedDialog env)"
  unfolding major_def
  by (auto elim: isLookup.elims)

lemma lookups_list_ex [simp]:
  "list_all isLookup evs \<Longrightarrow> major p \<Longrightarrow> list_ex p evs = False"
  by (induction evs) (auto simp: major_def)

lemma before_append:
  "before p q (xs @ ys) = (before p q xs \<and> (list_ex p xs \<or> before p q ys))"
  by (induction xs) auto

lemma lookups_before [simp]:
  "list_all isLookup evs \<Longrightarrow> major q \<Longrightarrow> before p q evs"
  by (induction evs) (auto simp: major_def)

lemma lookups_before_append [simp]:
  "list_all isLookup evs \<Longrightarrow> major p \<Longrightarrow> major q \<Longrightarrow> before p q (evs @ ys) = before p q ys"
  by (simp add: before_append)

lemma lookups_no_major [simp]:
  "list_all isLookup evs \<Longrightarrow> SnapDialog dp \<notin> set evs"
  "list_all isLookup evs \<Longrightarrow> CommandCall c m cl \<notin> set evs"
  "list_all isLookup evs \<Longrightarrow> UpdateState st \<notin> set evs"
  "list_all isLookup evs \<Longrightarrow> CreateClient a n cv pk \<notin> set evs"
  by (auto simp: list_all_iff)

lemma lookupsOnly_bind:
  "lookupsOnly m \<Longrightarrow> (\<And>x. lookupsOnly (f x)) \<Longrightarrow> lookupsOnly (bind m f)"
  by (simp add: lookupsOnly_def split: sum.splits)

lemma lookupsOnly_basic:
  "lookupsOnly (return x)"
  "lookupsOnly (throw e)"
  "lookupsOnly (consoleError args)"
  "lookupsOnly (callGetMirrorAccountInfo env a url)"
  "lookupsOnly (callGetTokenById env t url)"
  "lookupsOnly (callGetNodeStakingInfo env url n)"
  by (simp_all add: lookupsOnly_def call_defs)

lemma lookupsOnly_if:
  "lookupsOnly a \<Longrightarrow> lookupsOnly b \<Longrightarrow> lookupsOnly (if c then a else b)"
  by simp

lemma lookupsOnly_case_option:
  "lookupsOnly a \<Longrightarrow> (\<And>x. lookupsOnly (f x)) \<Longrightarrow> lookupsOnly (case_option a f v)"
  by (cases v) simp_all

lemma lookupsOnly_case_list:
  "lookupsOnly a \<Longrightarrow> (\<And>x xs. lookupsOnly (f x xs)) \<Longrightarrow> lookupsOnly (case_list a f v)"
  by (cases v) simp_all

lemma lookupsOnly_case_prod:
  "(\<And>a b. lookupsOnly (f a b)) \<Longrightarrow> lookupsOnly (case_prod f v)"
  by (cases v) simp_all

lemmas lookupsOnly_intros = lookupsOnly_bind lookupsOnly_basic lookupsOnly_if
  lookupsOnly_case_option lookupsOnly_case_list lookupsOnly_case_prod

lemma tokenPanels_lookupsOnly: "lookupsOnly (tokenPanels env url all tids panel)"
  by (induction tids arbitrary: panel) (simp_all only: tokenPanels.simps, (intro lookupsOnly_intros)+)

lemma createTxDialogHbar_lookupsOnly: "lookupsOnly (createTxDialogHbar wb t panel fees)"
  unfolding createTxDialogHbar_def by (intro lookupsOnly_intros)

lemma createTxDialogToken_lookupsOnly: "lookupsOnly (createTxDialogToken env wb t url panel fees)"
  unfolding createTxDialogToken_def Let_def by (intro lookupsOnly_intros)

lemma createTxDialog_lookupsOnly: "lookupsOnly (createTxDialog env a t url panel fees isReq)"
  unfolding createTxDialog_def
  by (intro lookupsOnly_intros createTxDialogHbar_lookupsOnly createTxDialogToken_lookupsOnly)

lemma swapDialogs_lookupsOnly: "lookupsOnly (swapDialogs env a url fees i swaps panel)"
proof (induction swaps arbitrary: i panel)
  case Nil
  show ?case by (simp add: lookupsOnly_basic)
next
  case (Cons swap swaps)
  show ?case
    unfolding swapDialogs.simps
    by (intro lookupsOnly_intros createTxDialog_lookupsOnly Cons.IH)
qed

lemma stakeHbarPlan_lookupsOnly: "lookupsOnly (stakeHbarPlan env url si p)"
  unfolding stakeHbarPlan_def by (intro lookupsOnly_intros)

lemma lookups_traces [simp]:
  "list_all isLookup (trace (tokenPanels env url all tids panel))"
  "list_all isLookup (trace (swapDialogs env a url fees i swaps panel))"
  "list_all isLookup (trace (stakeHbarPlan env url si p))"
  using tokenPanels_lookupsOnly swapDialogs_lookupsOnly stakeHbarPlan_lookupsOnly
  by (simp_all add: lookupsOnly_def)

subsection \<open>What a run yields\<close>

lemma yieldsI: "(\<And>x. result m = Inr x \<Longrightarrow> P x) \<Longrightarrow> yields m P"
  by (simp add: yields_def split: sum.splits)

lemma yieldsD: "yields m P \<Longrightarrow> result m = Inr x \<Longrightarrow> P x"
  by (simp add: yields_def)

lemma yields_return: "P x \<Longrightarrow> yields (return x) P"
  by (simp add: yields_def)

lemma yields_throw: "yields (throw e) P"
  by (simp add: yields_def)

lemma result_bind_Inr:
  "result (bind m f) = Inr y \<Longrightarrow> \<exists>x. result m = Inr x \<and> result (f x) = Inr y"
  by (simp split: sum.splits)

lemma yields_bind:
  assumes "yields m Q" and "\<And>x. Q x \<Longrightarrow> yields (f x) P"
  shows "yields (bind m f) P"
proof (rule yieldsI)
  fix y
  assume "result (bind m f) = Inr y"
  then obtain x where "result m = Inr x" and "result (f x) = Inr y"
    by (blast dest: result_bind_Inr)
  with assms show "P y"
    by (blast dest: yieldsD)
qed

lemma yields_bind_any:
  assumes "\<And>x. yields (f x) P"
  shows "yields (bind m f) P"
proof (rule yields_bind [where Q = "\<lambda>x. True"])
  show "yields m (\<lambda>x. True)"
    by (simp add: yields_def split: sum.splits)
qed (rule assms)

lemma yields_if: "(c \<Longrightarrow> yields a P) \<Longrightarrow> (\<not> c \<Longrightarrow> yields b P) \<Longrightarrow> yields (if c then a else b) P"
  by simp

lemma yields_case_option:
  "(v = None \<Longrightarrow> yields a P) \<Longrightarrow> (\<And>x. v = Some x \<Longrightarrow> yields (f x) P) \<Longrightarrow> yields (case_option a f v) P"
  by (cases v) simp_all

lemma yields_case_list:
  "(v = [] \<Longrightarrow> yields a P) \<Longrightarrow> (\<And>x xs. v = x # xs \<Longrightarrow> yields (f x xs) P)
     \<Longrightarrow> yields (case_list a f v) P"
  by (cases v) simp_all

lemma yields_case_prod: "(\<And>a b. v = (a, b) \<Longrightarrow> yields (f a b) P) \<Longrightarrow> yields (case_prod f v) P"
  by (cases v) simp_all

lemmas yields_intros = yields_throw yields_if yields_case_option yields_case_list yields_case_prod

subsection \<open>createTxDialog and the loop over the swaps\<close>

lemma adjacent_append_right: "adjacent a b xs \<Longrightarrow> adjacent a b (xs @ ys)"
  by (induction a b xs rule: adjacent.induct) auto

lemma adjacent_append_left: "adjacent a b ys \<Longrightarrow> adjacent a b (xs @ ys)"
proof (induction xs)
  case Nil
  then show ?case by simp
next
  case (Cons x xs)
  then show ?case by (cases "xs @ ys") auto
qed

lemma keeps_refl [simp]: "keeps t panel t panel" "keeps t panel t (panel @ ext)"
  "keeps t panel (t\<lparr>decimals := d\<rparr>) (panel @ ext)" "keeps t panel (t\<lparr>decimals := d\<rparr>) panel"
  by (simp_all add: keeps_def)

lemma createTxDialogHbar_keeps:
  "yields (createTxDialogHbar wb t panel fees) (\<lambda>(t1, asset, fee, panel1). keeps t panel t1 panel1)"
  unfolding createTxDialogHbar_def
  by (intro yields_intros yields_bind_any yields_return) simp_all

lemma createTxDialogToken_keeps:
  "yields (createTxDialogToken env wb t url panel fees) (\<lambda>(t1, asset, fee, panel1). keeps t panel t1 panel1)"
  unfolding createTxDialogToken_def Let_def
  apply (rule yields_bind[where Q = "\<lambda>p1. \<exists>ext. p1 = panel @ ext"])
   apply (intro yields_intros yields_bind_any yields_return; simp)
  apply (rule yields_bind_any)
  apply (rule yields_case_prod)
  apply (rule yields_bind_any)
  apply (rule yields_bind[where Q = "\<lambda>(t2, asset, p2). keeps t panel t2 p2"])
   apply (intro yields_intros yields_bind_any yields_return; auto simp: keeps_def)
  apply (intro yields_intros yields_bind_any yields_return; auto simp: keeps_def)
  done

lemma createTxDialog_keeps:
  "yields (createTxDialog env a t url panel fees isReq)
     (\<lambda>(t1, panel1).
        keeps t (panel @ [Text (''Swap '' @ (if isReq then ''Requester'' else ''Responder'')), Copyable a])
          t1 panel1)"
  unfolding createTxDialog_def
  apply (rule yields_if)
   apply (intro yields_bind_any yields_throw)
  apply (rule yields_bind_any)
  apply (rule yields_bind[where Q = "\<lambda>(t1, asset, fee, p1).
           keeps t (panel @ [Text (''Swap '' @ (if isReq then ''Requester'' else ''Responder'')), Copyable a,
                             Text (''Asset Type: '' @ assetTypeStr (assetType t))]) t1 p1"])
   apply (intro yields_if createTxDialogHbar_keeps createTxDialogToken_keeps)
  apply (clarsimp simp: yields_def keeps_def)
  done

lemma createTxDialog_result:
  "result (createTxDialog env a t url panel fees isReq) = Inr (t1, panel1) \<Longrightarrow>
     to t1 = to t \<and> amount t1 = amount t \<and>
     (\<exists>ext. panel1 = panel @ [Text (''Swap '' @ (if isReq then ''Requester'' else ''Responder'')), Copyable a] @ ext)"
  using yieldsD [OF createTxDialog_keeps, of env a t url panel fees isReq "(t1, panel1)"]
  by (simp add: keeps_def)

lemma swapDialogs_done:
  "yields (swapDialogs env a url fees i swaps panel) (\<lambda>(swaps1, panel1). swapsDone a swaps panel swaps1 panel1)"
proof (induction swaps arbitrary: i panel)
  case Nil
  show ?case by (simp add: yields_return swapsDone_def)
next
  case (Cons swap swaps)
  show ?case
  proof (rule yieldsI)
    fix y
    assume "result (swapDialogs env a url fees i (swap # swaps) panel) = Inr y"
    then obtain rq panel1 rs panel2 swaps1 panel3 where
      r1: "result (createTxDialog env a (requester swap) url
             (panel @ [Divider, Text (''Swap #'' @ jsString env (Fin (real (i + 1)))), Divider])
             fees True) = Inr (rq, panel1)"
      and r2: "result (createTxDialog env (to rq) ((responder swap)\<lparr>to := a\<rparr>) url
             (panel1 @ [Divider]) fees False) = Inr (rs, panel2)"
      and r3: "result (swapDialogs env a url fees (i + 1) swaps panel2) = Inr (swaps1, panel3)"
      and y: "y = (swap\<lparr>requester := rq, responder := rs\<rparr> # swaps1, panel3)"
      by (auto split: sum.splits prod.splits)
    from createTxDialog_result [OF r1] obtain e1 where
      rq: "to rq = to (requester swap)" "amount rq = amount (requester swap)"
      and p1: "panel1 = panel @ e1"
      by auto
    from createTxDialog_result [OF r2] obtain e2 where
      rs: "to rs = a" "amount rs = amount (responder swap)"
      and p2: "panel2 = (panel1 @ [Divider]) @ [Text ''Swap Responder'', Copyable (to rq)] @ e2"
      by auto
    from yieldsD [OF Cons.IH r3] obtain e3 where
      am: "map amount (transfersOf swaps1) = map amount (transfersOf swaps)"
      and tos: "list_all (\<lambda>s. to (responder s) = a) swaps1"
      and p3: "panel3 = panel2 @ e3"
      and adj: "list_all (\<lambda>s. adjacent (Text ''Swap Responder'') (Copyable (to (requester s))) panel3) swaps"
      by (auto simp: swapsDone_def)
    have "adjacent (Text ''Swap Responder'') (Copyable (to (requester swap))) panel3"
      unfolding p3 p2 using rq(1)
      by (simp add: adjacent_append_right adjacent_append_left)
    with rq rs am tos adj p1 p2 p3 y
    show "case y of (swaps1, panel1) \<Rightarrow> swapsDone a (swap # swaps) panel swaps1 panel1"
      by (simp add: swapsDone_def)
  qed
qed

lemma swapDialogs_result:
  "result (swapDialogs env a url fees i swaps panel) = Inr (swaps1, panel1) \<Longrightarrow>
     swapsDone a swaps panel swaps1 panel1"
  using yieldsD [OF swapDialogs_done, of env a url fees i swaps panel "(swaps1, panel1)"]
  by simp

subsection \<open>The service fees\<close>

lemma serviceFeeStep_snd: "snd (serviceFeeStep svcFee acc t) = deductHalfFee svcFee t"
  by (simp add: serviceFeeStep_def deductHalfFee_def Let_def)

lemma reduceServiceFees_snd:
  "snd (reduceServiceFees svcFee acc ts) = map (deductHalfFee svcFee) ts"
proof (induction ts arbitrary: acc)
  case Nil
  show ?case by simp
next
  case (Cons t ts)
  have "snd (reduceServiceFees svcFee acc (t # ts))
          = snd (serviceFeeStep svcFee acc t)
              # snd (reduceServiceFees svcFee (fst (serviceFeeStep svcFee acc t)) ts)"
    by (simp split: prod.splits)
  then show ?case
    by (simp add: Cons.IH serviceFeeStep_snd)
qed

lemma reduceServiceFees_fst_Cons:
  "fst (reduceServiceFees svcFee acc (t # ts))
     = fst (reduceServiceFees svcFee (fst (serviceFeeStep svcFee acc t)) ts)"
  by (simp split: prod.splits)

lemma writeBack_map:
  "writeBack swaps (map f (transfersOf swaps))
     = map (\<lambda>s. s\<lparr>requester := f (requester s), responder := f (responder s)\<rparr>) swaps"
  by (induction swaps) simp_all

lemma swapsAfterFees_eq:
  "swapsAfterFees p
     = map (\<lambda>s. s\<lparr>requester := deductHalfFee (requestServiceFee p) (requester s),
                    responder := deductHalfFee (requestServiceFee p) (responder s)\<rparr>)
         (requestSwaps p)"
  by (simp add: swapsAfterFees_def reduceServiceFees_snd writeBack_map)

lemma feeOf_zero: "percentageCut svcFee = 0 \<Longrightarrow> feeOf svcFee t = 0"
  by (simp add: feeOf_def toFixed2_def)

lemma deductHalfFee_zero: "percentageCut svcFee = 0 \<Longrightarrow> deductHalfFee svcFee t = t"
  by (simp add: deductHalfFee_def feeOf_zero)

lemma swapsAfterFees_zero:
  "percentageCut (requestServiceFee p) = 0 \<Longrightarrow> swapsAfterFees p = requestSwaps p"
  by (simp add: swapsAfterFees_eq deductHalfFee_zero)

lemma allZero_Nil: "allZero []"
  by (simp add: allZero_def)

lemma allZero_falsy: "allZero acc \<Longrightarrow> \<not> truthyNum (map_of acc k)"
proof (cases "map_of acc k")
  case None
  then show ?thesis by simp
next
  case (Some v)
  assume "allZero acc"
  moreover from Some have "(k, v) \<in> set acc"
    by (rule map_of_SomeD)
  ultimately have "v = Fin 0"
    by (force simp: allZero_def list_all_iff)
  with Some show ?thesis by simp
qed

lemma allZero_update: "allZero acc \<Longrightarrow> allZero (AList.update k (Fin 0) acc)"
  by (induction acc) (auto simp: allZero_def)

lemma serviceFeeStep_zero:
  assumes "feeOf svcFee t = 0" and "allZero acc"
  shows "allZero (fst (serviceFeeStep svcFee acc t))"
  using assms
  by (simp add: serviceFeeStep_def Let_def update_conv' allZero_update allZero_falsy)

lemma reduceServiceFees_zero:
  "percentageCut svcFee = 0 \<Longrightarrow> allZero acc \<Longrightarrow> allZero (fst (reduceServiceFees svcFee acc ts))"
proof (induction ts arbitrary: acc)
  case Nil
  then show ?case by simp
next
  case (Cons t ts)
  then show ?case
    by (simp only: reduceServiceFees_fst_Cons) (simp add: serviceFeeStep_zero feeOf_zero)
qed

lemma serviceFeesToPay_zero:
  "percentageCut (requestServiceFee p) = 0 \<Longrightarrow> allZero (serviceFeesToPay p)"
  by (simp add: serviceFeesToPay_def reduceServiceFees_zero allZero_Nil)

subsection \<open>The facades\<close>

lemmas facade_defs = createTopic_def associateTokens_def stakeHbar_def updateTokenFeeSchedule_def
  initiateSwap_def completeSwap_def

lemma createTopic_rejects: "rejectsWithoutCommand env (createTopic env w p)"
  by (simp add: rejectsWithoutCommand_def createTopic_def Let_def call_defs
        split: sum.split option.split prod.split)

lemma associateTokens_rejects: "rejectsWithoutCommand env (associateTokens env w p)"
  by (simp add: rejectsWithoutCommand_def associateTokens_def Let_def call_defs
        split: sum.split option.split prod.split)

lemma stakeHbar_rejects: "rejectsWithoutCommand env (stakeHbar env w p)"
  by (simp add: rejectsWithoutCommand_def stakeHbar_def Let_def call_defs
        split: sum.split option.split prod.split)

lemma updateTokenFeeSchedule_rejects: "rejectsWithoutCommand env (updateTokenFeeSchedule env w p)"
  by (simp add: rejectsWithoutCommand_def updateTokenFeeSchedule_def Let_def call_defs
        split: sum.split option.split prod.split)

lemma initiateSwap_rejects: "rejectsWithoutCommand env (initiateSwap env w p)"
  by (simp add: rejectsWithoutCommand_def initiateSwap_def Let_def call_defs
        split: sum.split option.split prod.split)

lemma completeSwap_rejects: "rejectsWithoutCommand env (completeSwap env w p)"
  by (simp add: rejectsWithoutCommand_def completeSwap_def Let_def call_defs
        split: sum.split option.split prod.split)

lemma createTopic_order:
  "dialogClientCommand env (trace (createTopic env w p))
     \<and> \<not> list_ex isUpdateState (trace (createTopic env w p))"
  by (simp add: dialogClientCommand_def createTopic_def Let_def call_defs
        split: sum.split option.split prod.split)

lemma associateTokens_order:
  "dialogClientCommand env (trace (associateTokens env w p))
     \<and> \<not> list_ex isUpdateState (trace (associateTokens env w p))"
  by (simp add: dialogClientCommand_def associateTokens_def Let_def call_defs
        split: sum.split option.split prod.split)

lemma updateTokenFeeSchedule_order:
  "dialogClientCommand env (trace (updateTokenFeeSchedule env w p))
     \<and> \<not> list_ex isUpdateState (trace (updateTokenFeeSchedule env w p))"
  by (simp add: dialogClientCommand_def updateTokenFeeSchedule_def Let_def call_defs
        split: sum.split option.split prod.split)

lemma stakeHbar_order:
  "dialogClientCommand env (trace (stakeHbar env w p))
     \<and> before isCommandCall isUpdateState (trace (stakeHbar env w p))"
  by (simp add: dialogClientCommand_def stakeHbar_def Let_def call_defs
        split: sum.split option.split prod.split)

lemma initiateSwap_order:
  "clientDialogCommand env (trace (initiateSwap env w p))
     \<and> \<not> list_ex isUpdateState (trace (initiateSwap env w p))"
  by (simp add: clientDialogCommand_def initiateSwap_def Let_def call_defs
        split: sum.split option.split prod.split)

lemma completeSwap_order:
  "clientDialogCommand env (trace (completeSwap env w p))
     \<and> \<not> list_ex isUpdateState (trace (completeSwap env w p))"
  by (simp add: clientDialogCommand_def completeSwap_def Let_def call_defs
        split: sum.split option.split prod.split)

lemma createTopic_receipt: "returnsReceiptOf env execute (createTopic env w p)"
  by (simp add: returnsReceiptOf_def createTopic_def Let_def call_defs
        split: sum.split option.split prod.split)

lemma associateTokens_receipt: "returnsReceiptOf env execute (associateTokens env w p)"
  by (simp add: returnsReceiptOf_def associateTokens_def Let_def call_defs
        split: sum.split option.split prod.split)

lemma stakeHbar_receipt: "returnsReceiptOf env execute (stakeHbar env w p)"
  by (simp add: returnsReceiptOf_def stakeHbar_def Let_def call_defs
        split: sum.split option.split prod.split)

lemma updateTokenFeeSchedule_receipt: "returnsReceiptOf env execute (updateTokenFeeSchedule env w p)"
  by (simp add: returnsReceiptOf_def updateTokenFeeSchedule_def Let_def call_defs
        split: sum.split option.split prod.split)

lemma initiateSwap_receipt: "returnsReceiptOf env initiateSwapMethod (initiateSwap env w p)"
  by (simp add: returnsReceiptOf_def initiateSwap_def Let_def call_defs
        split: sum.split option.split prod.split)

lemma completeSwap_receipt:
  "returnsReceiptOf env (completeSwapMethod (scheduleId p)) (completeSwap env w p)"
  by (simp add: returnsReceiptOf_def completeSwap_def Let_def call_defs
        split: sum.split option.split prod.split)

subsection \<open>initiateSwap: the dialog and the command\<close>

lemma initiateSwap_command:
  "CommandCall c meth cl \<in> set (trace (initiateSwap env w p)) \<longrightarrow>
     (\<exists>swaps panel.
        result (swapDialogs env (hederaAccountId (currentAccount (state w)))
                  (mirrorNodeUrl (currentAccount (state w))) (serviceFeesToPay p) 0
                  (swapsAfterFees p) (initiateSwapHeader env p)) = Inr (swaps, panel)
        \<and> c = AtomicSwapCommand swaps (swapMemo p) (maxFee p) (serviceFeesToPay p)
                (toAddress (requestServiceFee p))
        \<and> meth = initiateSwapMethod)"
  by (simp add: initiateSwap_def Let_def call_defs split: sum.split option.split prod.split)

lemma initiateSwap_dialog:
  "SnapDialog dp \<in> set (trace (initiateSwap env w p)) \<longrightarrow>
     (\<exists>swaps panel.
        result (swapDialogs env (hederaAccountId (currentAccount (state w)))
                  (mirrorNodeUrl (currentAccount (state w))) (serviceFeesToPay p) 0
                  (swapsAfterFees p) (initiateSwapHeader env p)) = Inr (swaps, panel)
        \<and> panelToShow (content dp) = panel)"
  by (simp add: initiateSwap_def Let_def call_defs split: sum.split option.split prod.split)

lemma length_transfersOf: "length (transfersOf swaps) = 2 * length swaps"
  by (induction swaps) simp_all

lemma swapsDone_length: "swapsDone a swaps panel swaps1 panel1 \<Longrightarrow> length swaps1 = length swaps"
proof -
  assume "swapsDone a swaps panel swaps1 panel1"
  then have "length (map amount (transfersOf swaps1)) = length (map amount (transfersOf swaps))"
    by (simp add: swapsDone_def)
  then show ?thesis
    by (simp add: length_transfersOf)
qed

lemma transfersOf_map:
  "transfersOf (map (\<lambda>s. s\<lparr>requester := f (requester s), responder := f (responder s)\<rparr>) swaps)
     = map f (transfersOf swaps)"
  by (induction swaps) simp_all

lemma transfersOf_swapsAfterFees:
  "transfersOf (swapsAfterFees p) = map (deductHalfFee (requestServiceFee p)) (transfersOf (requestSwaps p))"
  by (simp only: swapsAfterFees_eq transfersOf_map)

subsection \<open>Reading a trace\<close>

lemma dialogPanels_append: "dialogPanels (xs @ ys) = dialogPanels xs @ dialogPanels ys"
  by (induction xs rule: dialogPanels.induct) simp_all

lemma persistedStakingInfo_append:
  "persistedStakingInfo (xs @ ys) = persistedStakingInfo xs @ persistedStakingInfo ys"
  by (induction xs rule: persistedStakingInfo.induct) simp_all

lemma commandFees_append: "commandFees (xs @ ys) = commandFees xs @ commandFees ys"
  by (induction xs rule: commandFees.induct) simp_all

lemma lookups_read [simp]:
  "list_all isLookup evs \<Longrightarrow> dialogPanels evs = []"
  "list_all isLookup evs \<Longrightarrow> persistedStakingInfo evs = []"
  "list_all isLookup evs \<Longrightarrow> commandFees evs = []"
proof -
  show "list_all isLookup evs \<Longrightarrow> dialogPanels evs = []"
    by (induction evs rule: dialogPanels.induct) simp_all
  show "list_all isLookup evs \<Longrightarrow> persistedStakingInfo evs = []"
    by (induction evs rule: persistedStakingInfo.induct) simp_all
  show "list_all isLookup evs \<Longrightarrow> commandFees evs = []"
    by (induction evs rule: commandFees.induct) simp_all
qed

lemmas read_append = dialogPanels_append persistedStakingInfo_append commandFees_append

subsection \<open>stakeHbar\<close>

lemma stakeHbarPlan_result:
  "result (stakeHbarPlan env url si p) = Inr (panel, sa, sn, d) \<Longrightarrow> stakingPlanned env si p sa sn d"
  by (auto simp: stakeHbarPlan_def stakingPlanned_def call_defs
        split: sum.splits option.splits list.splits if_splits)

lemma stakeHbar_persisted:
  "result (stakeHbar env w p) = Inr receipt \<longrightarrow>
     (\<exists>panel sa sn d.
        result (stakeHbarPlan env (mirrorNodeUrl (currentAccount (state w)))
                  (stakingInfo (accountInfo (accountState (state w)
                     (hederaEvmAddress (currentAccount (state w))) (network (currentAccount (state w))))))
                  p) = Inr (panel, sa, sn, d)
        \<and> persistedStakingInfo (trace (stakeHbar env w p))
            = [(stakingInfo (accountInfo (accountState (state w)
                   (hederaEvmAddress (currentAccount (state w))) (network (currentAccount (state w))))))
                 \<lparr>stakedAccountId := sa, stakedNodeId := sn, declineStakingReward := d\<rparr>])"
  by (simp add: stakeHbar_def Let_def call_defs read_append setStakingInfo_def
        split: sum.split option.split prod.split)

subsection \<open>associateTokens\<close>

lemma tokenPanels_result:
  "list_all (\<lambda>tid. returns (getTokenById env tid url)) tids \<Longrightarrow>
     result (tokenPanels env url all tids panel)
       = Inr (panel @ concat (map (tokenSegment env url all) tids))"
proof (induction tids arbitrary: panel)
  case Nil
  show ?case by simp
next
  case (Cons tid tids)
  from Cons.prems obtain v where v: "getTokenById env tid url = Inr v"
    by (cases "getTokenById env tid url") simp_all
  from Cons.prems have rest: "list_all (\<lambda>tid. returns (getTokenById env tid url)) tids"
    by simp
  have step: "result (tokenPanels env url all (tid # tids) panel)
                = result (tokenPanels env url all tids (panel @ tokenSegment env url all tid))"
    using v by (cases v) (simp_all add: call_defs tokenSegment_def)
  from Cons.IH [OF rest, of "panel @ tokenSegment env url all tid"] step
  show ?case by simp
qed

lemma associateTokens_dialog:
  "result (tokenPanels env (mirrorNodeUrl (currentAccount (state w))) (requestTokenIds p)
             (requestTokenIds p) (associateTokensHeader env)) = Inr panel \<longrightarrow>
     dialogPanels (trace (associateTokens env w p)) = [panel]"
  by (simp add: associateTokens_def Let_def call_defs read_append
        split: sum.split option.split prod.split)

subsection \<open>What the fee map holds\<close>

lemma serviceFeeStep_hbar:
  assumes "accOk acc" and "assetType t = HBAR"
  shows "map_of (fst (serviceFeeStep svcFee acc t))
           = (map_of acc)(''HBAR'' \<mapsto> Fin (hbarOf acc + feeOf svcFee t))"
proof (cases "map_of acc ''HBAR''")
  case None
  with assms show ?thesis
    by (simp add: serviceFeeStep_def Let_def update_conv' hbarOf_def)
next
  case (Some v)
  with assms obtain x where v: "v = Fin x"
    by (cases v) (simp_all add: accOk_def)
  show ?thesis
  proof (cases "x = 0")
    case True
    with Some v assms show ?thesis
      by (simp add: serviceFeeStep_def Let_def update_conv' hbarOf_def)
  next
    case False
    with Some v assms show ?thesis
      by (simp add: serviceFeeStep_def Let_def update_conv' hbarOf_def)
  qed
qed

lemma serviceFeeStep_asset:
  assumes "accOk acc" and "assetType t \<noteq> HBAR"
  shows "map_of (fst (serviceFeeStep svcFee acc t))
           = (map_of acc)(assetIdStr t \<mapsto> Fin (feeOf svcFee t))"
proof -
  from assms have "\<not> truthyNum (map_of acc (assetTypeStr (assetType t)))"
    by (cases "assetType t") (simp_all add: accOk_def)
  with assms show ?thesis
    by (simp add: serviceFeeStep_def Let_def update_conv')
qed

lemma serviceFeeStep_accOk:
  assumes "accOk acc" and "plainAssetId t"
  shows "accOk (fst (serviceFeeStep svcFee acc t))"
proof (cases "assetType t = HBAR")
  case True
  from serviceFeeStep_hbar [OF assms(1) True, of svcFee] assms(1) show ?thesis
    by (simp add: accOk_def)
next
  case False
  with assms(2) have "assetIdStr t \<noteq> ''HBAR''" "assetIdStr t \<noteq> ''TOKEN''" "assetIdStr t \<noteq> ''NFT''"
    by (auto simp: plainAssetId_def)
  with serviceFeeStep_asset [OF assms(1) False, of svcFee] assms(1) show ?thesis
    by (simp add: accOk_def)
qed

lemma reduceServiceFees_hbar:
  "accOk acc \<Longrightarrow> list_all plainAssetId ts \<Longrightarrow>
     map_of (fst (reduceServiceFees svcFee acc ts)) ''HBAR''
       = (if filter (\<lambda>t. assetType t = HBAR) ts = [] then map_of acc ''HBAR''
          else Some (Fin (hbarOf acc + hbarFees svcFee ts)))"
proof (induction ts arbitrary: acc)
  case Nil
  show ?case by simp
next
  case (Cons t ts)
  let ?acc1 = "fst (serviceFeeStep svcFee acc t)"
  from Cons.prems have ok1: "accOk ?acc1" and rest: "list_all plainAssetId ts" and plain: "plainAssetId t"
    by (simp_all add: serviceFeeStep_accOk)
  note ih = Cons.IH [OF ok1 rest]
  show ?case
  proof (cases "assetType t = HBAR")
    case True
    from serviceFeeStep_hbar [OF Cons.prems(1) True, of svcFee]
    have "map_of ?acc1 ''HBAR'' = Some (Fin (hbarOf acc + feeOf svcFee t))"
      by simp
    then have "hbarOf ?acc1 = hbarOf acc + feeOf svcFee t"
      by (simp add: hbarOf_def)
    with ih True \<open>map_of ?acc1 ''HBAR'' = Some (Fin (hbarOf acc + feeOf svcFee t))\<close> show ?thesis
      by (simp only: reduceServiceFees_fst_Cons) (simp add: hbarFees_def)
  next
    case False
    with plain have "assetIdStr t \<noteq> ''HBAR''"
      by (auto simp: plainAssetId_def)
    with serviceFeeStep_asset [OF Cons.prems(1) False, of svcFee]
    have same: "map_of ?acc1 ''HBAR'' = map_of acc ''HBAR''"
      by simp
    then have "hbarOf ?acc1 = hbarOf acc"
      by (simp add: hbarOf_def)
    with ih False same show ?thesis
      by (simp only: reduceServiceFees_fst_Cons) (simp add: hbarFees_def)
  qed
qed

lemma reduceServiceFees_asset:
  "accOk acc \<Longrightarrow> list_all plainAssetId ts \<Longrightarrow> k \<notin> set [''HBAR'', ''TOKEN'', ''NFT''] \<Longrightarrow>
     map_of (fst (reduceServiceFees svcFee acc ts)) k
       = (if assetTransfers k ts = [] then map_of acc k
          else Some (Fin (feeOf svcFee (last (assetTransfers k ts)))))"
proof (induction ts arbitrary: acc)
  case Nil
  show ?case by (simp add: assetTransfers_def)
next
  case (Cons t ts)
  let ?acc1 = "fst (serviceFeeStep svcFee acc t)"
  from Cons.prems have ok1: "accOk ?acc1" and rest: "list_all plainAssetId ts"
    by (simp_all add: serviceFeeStep_accOk)
  note ih = Cons.IH [OF ok1 rest Cons.prems(3)]
  show ?case
  proof (cases "assetType t = HBAR")
    case True
    from Cons.prems(3) serviceFeeStep_hbar [OF Cons.prems(1) True, of svcFee]
    have "map_of ?acc1 k = map_of acc k"
      by simp
    with ih True show ?thesis
      by (simp only: reduceServiceFees_fst_Cons) (simp add: assetTransfers_def)
  next
    case False
    from serviceFeeStep_asset [OF Cons.prems(1) False, of svcFee]
    have "map_of ?acc1 k = (if assetIdStr t = k then Some (Fin (feeOf svcFee t)) else map_of acc k)"
      by simp
    with ih False show ?thesis
      by (simp only: reduceServiceFees_fst_Cons) (simp add: assetTransfers_def)
  qed
qed

lemma accOk_Nil: "accOk []"
  by (simp add: accOk_def)

subsection \<open>Runs on the sample wallet\<close>

lemmas sample_defs = sampleEnv_def sampleWallet_def sampleAccount_def sampleAccountInfo_def
  sampleTokenInfo_def sampleNode_def sampleTopic_def sampleTokens_def sampleStake_def
  sampleFeeSchedule_def sampleSchedule_def sampleSwaps_def tokenTransfer_def hbarTransfer_def

lemma sample_fees_50:
  "serviceFeesToPay (sampleSwaps 50) = [(''0.0.5'', Fin 100), (''HBAR'', Fin 15)]"
  by (simp add: serviceFeesToPay_def requestServiceFee_def requestSwaps_def sample_defs
        serviceFeeStep_def feeOf_def toFixed2_def assetIdStr_def Let_def)

lemma sample_fee_list_50:
  "map (feeOf (requestServiceFee (sampleSwaps 50))) (transfersOf (requestSwaps (sampleSwaps 50)))
     = [50, 5, 100, 10]"
  by (simp add: requestServiceFee_def requestSwaps_def sample_defs feeOf_def toFixed2_def)

lemma sample_swaps_50:
  "swapsAfterFees (sampleSwaps 50) =
     [\<lparr>requester = tokenTransfer 75, responder = hbarTransfer (15 / 2)\<rparr>,
      \<lparr>requester = tokenTransfer 150, responder = hbarTransfer 15\<rparr>]"
  by (simp add: swapsAfterFees_eq requestServiceFee_def requestSwaps_def sample_defs
        deductHalfFee_def feeOf_def toFixed2_def)

lemma sample_swaps_0:
  "swapsAfterFees (sampleSwaps 0) =
     [\<lparr>requester = tokenTransfer 100, responder = hbarTransfer 10\<rparr>,
      \<lparr>requester = tokenTransfer 200, responder = hbarTransfer 20\<rparr>]"
  by (simp add: swapsAfterFees_eq requestServiceFee_def requestSwaps_def sample_defs
        deductHalfFee_def feeOf_def toFixed2_def)

lemma sample_fees_0:
  "serviceFeesToPay (sampleSwaps 0) = [(''0.0.5'', Fin 0), (''HBAR'', Fin 0)]"
  by (simp add: serviceFeesToPay_def requestServiceFee_def requestSwaps_def sample_defs
        serviceFeeStep_def feeOf_def toFixed2_def assetIdStr_def Let_def)

lemma sample_swapDialogs_50:
  "returns (result (swapDialogs (sampleEnv b) ''0.0.1001'' ''https://testnet.mirrornode.hedera.com''
              [(''0.0.5'', Fin 100), (''HBAR'', Fin 15)] 0
              [\<lparr>requester = tokenTransfer 75, responder = hbarTransfer (15 / 2)\<rparr>,
               \<lparr>requester = tokenTransfer 150, responder = hbarTransfer 15\<rparr>] panel))"
  by (simp add: call_defs createTxDialog_def createTxDialogHbar_def createTxDialogToken_def
        sampleEnv_def sampleAccountInfo_def sampleTokenInfo_def
        tokenTransfer_def hbarTransfer_def assetIdStr_def Let_def)

lemma sample_swapDialogs_0:
  "returns (result (swapDialogs (sampleEnv b) ''0.0.1001'' ''https://testnet.mirrornode.hedera.com''
              [(''0.0.5'', Fin 0), (''HBAR'', Fin 0)] 0
              [\<lparr>requester = tokenTransfer 100, responder = hbarTransfer 10\<rparr>,
               \<lparr>requester = tokenTransfer 200, responder = hbarTransfer 20\<rparr>] panel))"
  by (simp add: call_defs createTxDialog_def createTxDialogHbar_def createTxDialogToken_def
        sampleEnv_def sampleAccountInfo_def sampleTokenInfo_def
        tokenTransfer_def hbarTransfer_def assetIdStr_def Let_def)

lemma returns_Inr: "returns r \<Longrightarrow> \<exists>x. r = Inr x"
  by (cases r) simp_all

text \<open>The run of \<^verbatim>\<open>initiateSwap\<close> once the loop over the swaps has returned.\<close>

lemma initiateSwap_after_loop:
  assumes "result (swapDialogs env (hederaAccountId (currentAccount (state w)))
              (mirrorNodeUrl (currentAccount (state w))) (serviceFeesToPay p) 0
              (swapsAfterFees p) (initiateSwapHeader env p)) = Inr (swaps, panel)"
    and "createClient env (hederaAccountId (currentAccount (state w))) (network (currentAccount (state w)))
           (curve (keyStore (accountState (state w) (hederaEvmAddress (currentAccount (state w)))
                               (network (currentAccount (state w))))))
           (privateKey (keyStore (accountState (state w) (hederaEvmAddress (currentAccount (state w)))
                               (network (currentAccount (state w))))))
         = Inr (Some client)"
    and "returns (getMirrorAccountInfo env (hederaAccountId (currentAccount (state w)))
                    (mirrorNodeUrl (currentAccount (state w))))"
  shows "SnapDialog (DialogParams ''confirmation''
            (CommonPanel (origin w) (network (currentAccount (state w)))
               (mirrorNodeUrl (currentAccount (state w))) panel))
           \<in> set (trace (initiateSwap env w p))"
    and "snapDialog env (DialogParams ''confirmation''
            (CommonPanel (origin w) (network (currentAccount (state w)))
               (mirrorNodeUrl (currentAccount (state w))) panel))
         \<Longrightarrow> CommandCall (AtomicSwapCommand swaps (swapMemo p) (maxFee p) (serviceFeesToPay p)
                  (toAddress (requestServiceFee p))) initiateSwapMethod (getClient client)
               \<in> set (trace (initiateSwap env w p))"
    and "snapDialog env (DialogParams ''confirmation''
            (CommonPanel (origin w) (network (currentAccount (state w)))
               (mirrorNodeUrl (currentAccount (state w))) panel))
         \<Longrightarrow> commandFees (trace (initiateSwap env w p)) = [serviceFeesToPay p]"
    and "snapDialog env (DialogParams ''confirmation''
            (CommonPanel (origin w) (network (currentAccount (state w)))
               (mirrorNodeUrl (currentAccount (state w))) panel))
         \<Longrightarrow> runCommand env (AtomicSwapCommand swaps (swapMemo p) (maxFee p) (serviceFeesToPay p)
                  (toAddress (requestServiceFee p))) initiateSwapMethod (getClient client) = Inr receipt
         \<Longrightarrow> result (initiateSwap env w p) = Inr receipt"
  using assms
  by (auto simp: initiateSwap_def Let_def call_defs read_append dest!: returns_Inr split: sum.split)

lemma sample_wallet [simp]:
  "hederaAccountId (currentAccount (state sampleWallet)) = ''0.0.1001''"
  "mirrorNodeUrl (currentAccount (state sampleWallet)) = ''https://testnet.mirrornode.hedera.com''"
  "network (currentAccount (state sampleWallet)) = ''testnet''"
  by (simp_all add: sampleWallet_def sampleAccount_def)

lemma sample_initiateSwap_50:
  "\<exists>swaps dp.
     SnapDialog dp \<in> set (trace (initiateSwap (sampleEnv b) sampleWallet (sampleSwaps 50)))
     \<and> (b \<longrightarrow>
          CommandCall (AtomicSwapCommand swaps None None [(''0.0.5'', Fin 100), (''HBAR'', Fin 15)]
             (Some ''0.0.98'')) initiateSwapMethod ''client''
            \<in> set (trace (initiateSwap (sampleEnv b) sampleWallet (sampleSwaps 50)))
          \<and> commandFees (trace (initiateSwap (sampleEnv b) sampleWallet (sampleSwaps 50)))
              = [[(''0.0.5'', Fin 100), (''HBAR'', Fin 15)]]
          \<and> result (initiateSwap (sampleEnv b) sampleWallet (sampleSwaps 50)) = Inr (TxRecord ''receipt''))"
proof -
  from sample_swapDialogs_50 [of b "initiateSwapHeader (sampleEnv b) (sampleSwaps 50)"]
  obtain swaps panel where
    "result (swapDialogs (sampleEnv b) ''0.0.1001'' ''https://testnet.mirrornode.hedera.com''
               [(''0.0.5'', Fin 100), (''HBAR'', Fin 15)] 0
               [\<lparr>requester = tokenTransfer 75, responder = hbarTransfer (15 / 2)\<rparr>,
                \<lparr>requester = tokenTransfer 150, responder = hbarTransfer 15\<rparr>]
               (initiateSwapHeader (sampleEnv b) (sampleSwaps 50))) = Inr (swaps, panel)"
    by (auto dest!: returns_Inr)
  then have r: "result (swapDialogs (sampleEnv b) (hederaAccountId (currentAccount (state sampleWallet)))
                  (mirrorNodeUrl (currentAccount (state sampleWallet))) (serviceFeesToPay (sampleSwaps 50)) 0
                  (swapsAfterFees (sampleSwaps 50)) (initiateSwapHeader (sampleEnv b) (sampleSwaps 50)))
                = Inr (swaps, panel)"
    by (simp add: sample_fees_50 sample_swaps_50)
  have c: "createClient (sampleEnv b) (hederaAccountId (currentAccount (state sampleWallet)))
             (network (currentAccount (state sampleWallet)))
             (curve (keyStore (accountState (state sampleWallet)
                (hederaEvmAddress (currentAccount (state sampleWallet)))
                (network (currentAccount (state sampleWallet))))))
             (privateKey (keyStore (accountState (state sampleWallet)
                (hederaEvmAddress (currentAccount (state sampleWallet)))
                (network (currentAccount (state sampleWallet))))))
           = Inr (Some \<lparr>getClient = ''client'', getPrivateKey = Some ''key''\<rparr>)"
    by (simp add: sampleEnv_def)
  have m: "returns (getMirrorAccountInfo (sampleEnv b)
              (hederaAccountId (currentAccount (state sampleWallet)))
              (mirrorNodeUrl (currentAccount (state sampleWallet))))"
    by (simp add: sampleEnv_def)
  have d: "snapDialog (sampleEnv c) dp = c" for c dp
    by (simp add: sampleEnv_def)
  have x: "runCommand (sampleEnv c) cmd meth cl = Inr (TxRecord ''receipt'')" for c cmd meth cl
    by (simp add: sampleEnv_def)
  have p: "swapMemo (sampleSwaps 50) = None" "maxFee (sampleSwaps 50) = None"
    "toAddress (requestServiceFee (sampleSwaps 50)) = Some ''0.0.98''"
    by (simp_all add: sampleSwaps_def requestServiceFee_def)
  note ev = initiateSwap_after_loop [OF r c m]
  have "CommandCall (AtomicSwapCommand swaps None None [(''0.0.5'', Fin 100), (''HBAR'', Fin 15)]
           (Some ''0.0.98'')) initiateSwapMethod ''client''
          \<in> set (trace (initiateSwap (sampleEnv b) sampleWallet (sampleSwaps 50)))" if b
    using ev(2) that by (simp add: d p sample_fees_50)
  moreover have "commandFees (trace (initiateSwap (sampleEnv b) sampleWallet (sampleSwaps 50)))
                   = [[(''0.0.5'', Fin 100), (''HBAR'', Fin 15)]]" if b
    using ev(3) that by (simp add: d sample_fees_50)
  moreover have "result (initiateSwap (sampleEnv b) sampleWallet (sampleSwaps 50))
                   = Inr (TxRecord ''receipt'')" if b
    using ev(4) [OF _ x] that by (simp add: d)
  ultimately show ?thesis
    using ev(1) by blast
qed

lemma sample_initiateSwap_0:
  "\<exists>swaps dp.
     SnapDialog dp \<in> set (trace (initiateSwap (sampleEnv b) sampleWallet (sampleSwaps 0)))
     \<and> (b \<longrightarrow>
          CommandCall (AtomicSwapCommand swaps None None [(''0.0.5'', Fin 0), (''HBAR'', Fin 0)]
             (Some ''0.0.98'')) initiateSwapMethod ''client''
            \<in> set (trace (initiateSwap (sampleEnv b) sampleWallet (sampleSwaps 0)))
          \<and> commandFees (trace (initiateSwap (sampleEnv b) sampleWallet (sampleSwaps 0)))
              = [[(''0.0.5'', Fin 0), (''HBAR'', Fin 0)]]
          \<and> result (initiateSwap (sampleEnv b) sampleWallet (sampleSwaps 0)) = Inr (TxRecord ''receipt''))"
proof -
  from sample_swapDialogs_0 [of b "initiateSwapHeader (sampleEnv b) (sampleSwaps 0)"]
  obtain swaps panel where
    "result (swapDialogs (sampleEnv b) ''0.0.1001'' ''https://testnet.mirrornode.hedera.com''
               [(''0.0.5'', Fin 0), (''HBAR'', Fin 0)] 0
               [\<lparr>requester = tokenTransfer 100, responder = hbarTransfer 10\<rparr>,
                \<lparr>requester = tokenTransfer 200, responder = hbarTransfer 20\<rparr>]
               (initiateSwapHeader (sampleEnv b) (sampleSwaps 0))) = Inr (swaps, panel)"
    by (auto dest!: returns_Inr)
  then have r: "result (swapDialogs (sampleEnv b) (hederaAccountId (currentAccount (state sampleWallet)))
                  (mirrorNodeUrl (currentAccount (state sampleWallet))) (serviceFeesToPay (sampleSwaps 0)) 0
                  (swapsAfterFees (sampleSwaps 0)) (initiateSwapHeader (sampleEnv b) (sampleSwaps 0)))
                = Inr (swaps, panel)"
    by (simp add: sample_fees_0 sample_swaps_0)
  have c: "createClient (sampleEnv b) (hederaAccountId (currentAccount (state sampleWallet)))
             (network (currentAccount (state sampleWallet)))
             (curve (keyStore (accountState (state sampleWallet)
                (hederaEvmAddress (currentAccount (state sampleWallet)))
                (network (currentAccount (state sampleWallet))))))
             (privateKey (keyStore (accountState (state sampleWallet)
                (hederaEvmAddress (currentAccount (state sampleWallet)))
                (network (currentAccount (state sampleWallet))))))
           = Inr (Some \<lparr>getClient = ''client'', getPrivateKey = Some ''key''\<rparr>)"
    by (simp add: sampleEnv_def)
  have m: "returns (getMirrorAccountInfo (sampleEnv b)
              (hederaAccountId (currentAccount (state sampleWallet)))
              (mirrorNodeUrl (currentAccount (state sampleWallet))))"
    by (simp add: sampleEnv_def)
  have d: "snapDialog (sampleEnv c) dp = c" for c dp
    by (simp add: sampleEnv_def)
  have x: "runCommand (sampleEnv c) cmd meth cl = Inr (TxRecord ''receipt'')" for c cmd meth cl
    by (simp add: sampleEnv_def)
  have p: "swapMemo (sampleSwaps 0) = None" "maxFee (sampleSwaps 0) = None"
    "toAddress (requestServiceFee (sampleSwaps 0)) = Some ''0.0.98''"
    by (simp_all add: sampleSwaps_def requestServiceFee_def)
  note ev = initiateSwap_after_loop [OF r c m]
  have "CommandCall (AtomicSwapCommand swaps None None [(''0.0.5'', Fin 0), (''HBAR'', Fin 0)]
           (Some ''0.0.98'')) initiateSwapMethod ''client''
          \<in> set (trace (initiateSwap (sampleEnv b) sampleWallet (sampleSwaps 0)))" if b
    using ev(2) that by (simp add: d p sample_fees_0)
  moreover have "commandFees (trace (initiateSwap (sampleEnv b) sampleWallet (sampleSwaps 0)))
                   = [[(''0.0.5'', Fin 0), (''HBAR'', Fin 0)]]" if b
    using ev(3) that by (simp add: d sample_fees_0)
  moreover have "result (initiateSwap (sampleEnv b) sampleWallet (sampleSwaps 0))
                   = Inr (TxRecord ''receipt'')" if b
    using ev(4) [OF _ x] that by (simp add: d)
  ultimately show ?thesis
    using ev(1) by blast
qed

lemma rejected_in_trace:
  "SnapDialog dp \<in> set evs \<Longrightarrow> \<not> snapDialog env dp \<Longrightarrow> list_ex (rejectedDialog env) evs"
  by (induction evs) auto

section \<open>The facades against their specification\<close>

subsection \<open>The service fees of a swap\<close>

text \<open>
  Claim C1. In \<^verbatim>\<open>initiateSwap\<close> the fee of a transfer is \<open>feeOf\<close> (the amount times
  \<^verbatim>\<open>percentageCut / 100\<close>, rounded to two decimals), and the fees are meant to add up, per
  asset, in the map that is passed to the \<^verbatim>\<open>AtomicSwapCommand\<close>. They do not add up for a
  token: the guard of the \<^verbatim>\<open>reduce\<close> reads \<^verbatim>\<open>acc[transfer.assetType]\<close> (the key
  \<^verbatim>\<open>TOKEN\<close>, which is never written) and so sets \<^verbatim>\<open>acc[transfer.assetId]\<close> back to 0 on
  every transfer of a token. On the request \<open>sampleSwaps 50\<close> (two swaps, each of the token
  \<^verbatim>\<open>0.0.5\<close> for HBAR, 50 percent) the four fees are 50, 5, 100 and 10; the command is
  given 100 for \<^verbatim>\<open>0.0.5\<close>, the fee of the last token transfer and not the sum 150, and
  15 for \<^verbatim>\<open>HBAR\<close>, the sum.
\<close>

theorem initiateSwap_token_fees_not_accumulated:
  "map (feeOf (requestServiceFee (sampleSwaps 50))) (transfersOf (requestSwaps (sampleSwaps 50)))
     = [50, 5, 100, 10]
   \<and> map assetType (transfersOf (requestSwaps (sampleSwaps 50))) = [TOKEN, HBAR, TOKEN, HBAR]
   \<and> serviceFeesToPay (sampleSwaps 50) = [(''0.0.5'', Fin 100), (''HBAR'', Fin 15)]
   \<and> commandFees (trace (initiateSwap (sampleEnv True) sampleWallet (sampleSwaps 50)))
       = [[(''0.0.5'', Fin 100), (''HBAR'', Fin 15)]]"
proof -
  have "map assetType (transfersOf (requestSwaps (sampleSwaps 50))) = [TOKEN, HBAR, TOKEN, HBAR]"
    by (simp add: requestSwaps_def sample_defs)
  with sample_fee_list_50 sample_fees_50 sample_initiateSwap_50 [of True] show ?thesis
    by auto
qed

text \<open>
  The HBAR entry of the fee map is the sum of the fees of the HBAR transfers: the guard and
  the entry use the same key.
\<close>

theorem serviceFeesToPay_hbar_entry:
  assumes "list_all plainAssetId (transfersOf (requestSwaps p))"
  shows "map_of (serviceFeesToPay p) ''HBAR''
           = (if filter (\<lambda>t. assetType t = HBAR) (transfersOf (requestSwaps p)) = [] then None
              else Some (Fin (hbarFees (requestServiceFee p) (transfersOf (requestSwaps p)))))"
  using reduceServiceFees_hbar [OF accOk_Nil assms, of "requestServiceFee p"]
  by (simp add: serviceFeesToPay_def hbarOf_def)

text \<open>
  The entry of a token or NFT is the fee of the last transfer of that asset, not the sum:
  the guard reads the key of the asset type, finds nothing, and sets the entry of the asset
  id back to 0 before every transfer.
\<close>

theorem serviceFeesToPay_asset_entry:
  assumes "list_all plainAssetId (transfersOf (requestSwaps p))"
    and "k \<notin> set [''HBAR'', ''TOKEN'', ''NFT'']"
  shows "map_of (serviceFeesToPay p) k
           = (if assetTransfers k (transfersOf (requestSwaps p)) = [] then None
              else Some (Fin (feeOf (requestServiceFee p)
                                (last (assetTransfers k (transfersOf (requestSwaps p)))))))"
  using reduceServiceFees_asset [OF accOk_Nil assms, of "requestServiceFee p"]
  by (simp add: serviceFeesToPay_def)

text \<open>
  Every transfer handed to the \<^verbatim>\<open>AtomicSwapCommand\<close> has the amount of the request less
  half of its fee, and the fee map handed to it is the one the \<^verbatim>\<open>reduce\<close> computed.
\<close>

theorem initiateSwap_command_amounts_and_fees:
  "CommandCall (AtomicSwapCommand swaps m f fees addr) meth cl \<in> set (trace (initiateSwap env w p)) \<longrightarrow>
     map amount (transfersOf swaps)
       = map (\<lambda>t. amount t - toFixed2 (amount t * (percentageCut (requestServiceFee p) / 100)) / 2)
           (transfersOf (requestSwaps p))
     \<and> fees = serviceFeesToPay p"
proof
  assume "CommandCall (AtomicSwapCommand swaps m f fees addr) meth cl \<in> set (trace (initiateSwap env w p))"
  with initiateSwap_command obtain panel where
    r: "result (swapDialogs env (hederaAccountId (currentAccount (state w)))
               (mirrorNodeUrl (currentAccount (state w))) (serviceFeesToPay p) 0
               (swapsAfterFees p) (initiateSwapHeader env p)) = Inr (swaps, panel)"
    and f: "fees = serviceFeesToPay p"
    by blast
  from swapDialogs_result [OF r]
  have "map amount (transfersOf swaps) = map amount (transfersOf (swapsAfterFees p))"
    by (simp add: swapsDone_def)
  with f show "map amount (transfersOf swaps)
       = map (\<lambda>t. amount t - toFixed2 (amount t * (percentageCut (requestServiceFee p) / 100)) / 2)
           (transfersOf (requestSwaps p))
     \<and> fees = serviceFeesToPay p"
    by (simp add: transfersOf_swapsAfterFees deductHalfFee_def feeOf_def comp_def)
qed

subsection \<open>No command without confirmation\<close>

text \<open>
  Claim C2. For every facade operation (\<^verbatim>\<open>createTopic\<close>, \<^verbatim>\<open>associateTokens\<close>,
  \<^verbatim>\<open>stakeHbar\<close>, \<^verbatim>\<open>updateTokenFeeSchedule\<close>, \<^verbatim>\<open>initiateSwap\<close>, \<^verbatim>\<open>completeSwap\<close>): if the
  user does not confirm the dialog, the operation throws a \<^verbatim>\<open>transactionRejected\<close> error
  and no method of a command is called; and a method of a command is called only after a
  dialog that the user confirmed.
\<close>

theorem facades_reject_without_confirmation:
  "rejectsWithoutCommand env (createTopic env w p1)
   \<and> rejectsWithoutCommand env (associateTokens env w p2)
   \<and> rejectsWithoutCommand env (stakeHbar env w p3)
   \<and> rejectsWithoutCommand env (updateTokenFeeSchedule env w p4)
   \<and> rejectsWithoutCommand env (initiateSwap env w p5)
   \<and> rejectsWithoutCommand env (completeSwap env w p6)"
  by (intro conjI createTopic_rejects associateTokens_rejects stakeHbar_rejects
        updateTokenFeeSchedule_rejects initiateSwap_rejects completeSwap_rejects)

theorem facades_reject_without_confirmation_witness:
  "list_ex (rejectedDialog (sampleEnv False)) (trace (createTopic (sampleEnv False) sampleWallet sampleTopic))
   \<and> isTransactionRejected (result (createTopic (sampleEnv False) sampleWallet sampleTopic))
   \<and> \<not> list_ex isCommandCall (trace (createTopic (sampleEnv False) sampleWallet sampleTopic))
   \<and> list_ex (rejectedDialog (sampleEnv False)) (trace (associateTokens (sampleEnv False) sampleWallet sampleTokens))
   \<and> isTransactionRejected (result (associateTokens (sampleEnv False) sampleWallet sampleTokens))
   \<and> \<not> list_ex isCommandCall (trace (associateTokens (sampleEnv False) sampleWallet sampleTokens))
   \<and> list_ex (rejectedDialog (sampleEnv False)) (trace (stakeHbar (sampleEnv False) sampleWallet sampleStake))
   \<and> isTransactionRejected (result (stakeHbar (sampleEnv False) sampleWallet sampleStake))
   \<and> \<not> list_ex isCommandCall (trace (stakeHbar (sampleEnv False) sampleWallet sampleStake))
   \<and> list_ex (rejectedDialog (sampleEnv False))
        (trace (updateTokenFeeSchedule (sampleEnv False) sampleWallet sampleFeeSchedule))
   \<and> isTransactionRejected (result (updateTokenFeeSchedule (sampleEnv False) sampleWallet sampleFeeSchedule))
   \<and> \<not> list_ex isCommandCall (trace (updateTokenFeeSchedule (sampleEnv False) sampleWallet sampleFeeSchedule))
   \<and> list_ex (rejectedDialog (sampleEnv False)) (trace (initiateSwap (sampleEnv False) sampleWallet (sampleSwaps 50)))
   \<and> isTransactionRejected (result (initiateSwap (sampleEnv False) sampleWallet (sampleSwaps 50)))
   \<and> \<not> list_ex isCommandCall (trace (initiateSwap (sampleEnv False) sampleWallet (sampleSwaps 50)))
   \<and> list_ex (rejectedDialog (sampleEnv False)) (trace (completeSwap (sampleEnv False) sampleWallet sampleSchedule))
   \<and> isTransactionRejected (result (completeSwap (sampleEnv False) sampleWallet sampleSchedule))
   \<and> \<not> list_ex isCommandCall (trace (completeSwap (sampleEnv False) sampleWallet sampleSchedule))"
proof -
  have no: "\<not> snapDialog (sampleEnv False) dp" for dp
    by (simp add: sampleEnv_def)
  have h1: "list_ex (rejectedDialog (sampleEnv False))
              (trace (createTopic (sampleEnv False) sampleWallet sampleTopic))"
    by (simp add: createTopic_def Let_def call_defs no)
  have h2: "list_ex (rejectedDialog (sampleEnv False))
              (trace (associateTokens (sampleEnv False) sampleWallet sampleTokens))"
    by (simp add: associateTokens_def Let_def call_defs no requestTokenIds_def sampleTokens_def
          sampleEnv_def)
  have h3: "list_ex (rejectedDialog (sampleEnv False))
              (trace (stakeHbar (sampleEnv False) sampleWallet sampleStake))"
    by (simp add: stakeHbar_def stakeHbarPlan_def Let_def call_defs no sampleStake_def sampleEnv_def)
  have h4: "list_ex (rejectedDialog (sampleEnv False))
              (trace (updateTokenFeeSchedule (sampleEnv False) sampleWallet sampleFeeSchedule))"
    by (simp add: updateTokenFeeSchedule_def Let_def call_defs no sampleFeeSchedule_def sampleEnv_def)
  from sample_initiateSwap_50 [of False] obtain dp where
    "SnapDialog dp \<in> set (trace (initiateSwap (sampleEnv False) sampleWallet (sampleSwaps 50)))"
    by blast
  then have h5: "list_ex (rejectedDialog (sampleEnv False))
                   (trace (initiateSwap (sampleEnv False) sampleWallet (sampleSwaps 50)))"
    by (rule rejected_in_trace) (rule no)
  have h6: "list_ex (rejectedDialog (sampleEnv False))
              (trace (completeSwap (sampleEnv False) sampleWallet sampleSchedule))"
    by (simp add: completeSwap_def Let_def call_defs no sampleEnv_def)
  from facades_reject_without_confirmation
         [of "sampleEnv False" sampleWallet sampleTopic sampleTokens sampleStake sampleFeeSchedule
             "sampleSwaps 50" sampleSchedule]
       h1 h2 h3 h4 h5 h6
  show ?thesis
    by (simp add: rejectsWithoutCommand_def)
qed

subsection \<open>The order of the calls\<close>

text \<open>
  Claim C3 states one order for every facade: build the client, show the dialog, execute
  the command, persist the state. A run of \<^verbatim>\<open>createTopic\<close> that returns its receipt makes
  three calls, the dialog first, then the client, then the command, and persists nothing.
\<close>

theorem createTopic_builds_client_after_dialog:
  "map isDialog (trace (createTopic (sampleEnv True) sampleWallet sampleTopic)) = [True, False, False]
   \<and> map isCreateClient (trace (createTopic (sampleEnv True) sampleWallet sampleTopic)) = [False, True, False]
   \<and> map isCommandCall (trace (createTopic (sampleEnv True) sampleWallet sampleTopic)) = [False, False, True]
   \<and> result (createTopic (sampleEnv True) sampleWallet sampleTopic) = Inr (TxRecord ''receipt'')
   \<and> \<not> fixedOrder (trace (createTopic (sampleEnv True) sampleWallet sampleTopic))"
  by (simp add: createTopic_def Let_def call_defs sampleEnv_def fixedOrder_def)

text \<open>
  Claim C3, as the code has it. \<^verbatim>\<open>createTopic\<close>, \<^verbatim>\<open>associateTokens\<close>, \<^verbatim>\<open>stakeHbar\<close> and
  \<^verbatim>\<open>updateTokenFeeSchedule\<close> build the Hedera client only after a dialog that the user
  confirmed, and call the command only after the client was built. \<^verbatim>\<open>initiateSwap\<close> and
  \<^verbatim>\<open>completeSwap\<close> build the client before they show the dialog, and call the command
  only after a dialog that the user confirmed. Only \<^verbatim>\<open>stakeHbar\<close> persists wallet state,
  and only after the command was called; the other operations never persist it.
\<close>

theorem facades_call_order:
  "dialogClientCommand env (trace (createTopic env w p1))
   \<and> \<not> list_ex isUpdateState (trace (createTopic env w p1))
   \<and> dialogClientCommand env (trace (associateTokens env w p2))
   \<and> \<not> list_ex isUpdateState (trace (associateTokens env w p2))
   \<and> dialogClientCommand env (trace (stakeHbar env w p3))
   \<and> before isCommandCall isUpdateState (trace (stakeHbar env w p3))
   \<and> dialogClientCommand env (trace (updateTokenFeeSchedule env w p4))
   \<and> \<not> list_ex isUpdateState (trace (updateTokenFeeSchedule env w p4))
   \<and> clientDialogCommand env (trace (initiateSwap env w p5))
   \<and> \<not> list_ex isUpdateState (trace (initiateSwap env w p5))
   \<and> clientDialogCommand env (trace (completeSwap env w p6))
   \<and> \<not> list_ex isUpdateState (trace (completeSwap env w p6))"
  using createTopic_order [of env w p1] associateTokens_order [of env w p2]
    stakeHbar_order [of env w p3] updateTokenFeeSchedule_order [of env w p4]
    initiateSwap_order [of env w p5] completeSwap_order [of env w p6]
  by blast

theorem facades_call_order_witness:
  "map isDialog (trace (stakeHbar (sampleEnv True) sampleWallet sampleStake))
     = [False, True, False, False, False, False]
   \<and> map isCreateClient (trace (stakeHbar (sampleEnv True) sampleWallet sampleStake))
       = [False, False, True, False, False, False]
   \<and> map isCommandCall (trace (stakeHbar (sampleEnv True) sampleWallet sampleStake))
       = [False, False, False, True, False, False]
   \<and> map isUpdateState (trace (stakeHbar (sampleEnv True) sampleWallet sampleStake))
       = [False, False, False, False, False, True]
   \<and> dialogClientCommand (sampleEnv True) (trace (stakeHbar (sampleEnv True) sampleWallet sampleStake))
   \<and> before isCommandCall isUpdateState (trace (stakeHbar (sampleEnv True) sampleWallet sampleStake))"
  using facades_call_order
          [of "sampleEnv True" sampleWallet sampleTopic sampleTokens sampleStake sampleFeeSchedule
              "sampleSwaps 50" sampleSchedule]
  by (simp add: stakeHbar_def stakeHbarPlan_def Let_def call_defs sampleStake_def sampleEnv_def)

subsection \<open>The receipt returned\<close>

text \<open>
  Claim C4. Whenever a facade operation returns, what it returns is the receipt that the
  called method of its command answered with (\<^verbatim>\<open>execute\<close>, \<^verbatim>\<open>initiateSwap\<close> or
  \<^verbatim>\<open>completeSwap\<close> with the schedule id of the request).
\<close>

theorem facades_return_command_receipt:
  "returnsReceiptOf env execute (createTopic env w p1)
   \<and> returnsReceiptOf env execute (associateTokens env w p2)
   \<and> returnsReceiptOf env execute (stakeHbar env w p3)
   \<and> returnsReceiptOf env execute (updateTokenFeeSchedule env w p4)
   \<and> returnsReceiptOf env initiateSwapMethod (initiateSwap env w p5)
   \<and> returnsReceiptOf env (completeSwapMethod (scheduleId p6)) (completeSwap env w p6)"
  by (intro conjI createTopic_receipt associateTokens_receipt stakeHbar_receipt
        updateTokenFeeSchedule_receipt initiateSwap_receipt completeSwap_receipt)

theorem facades_return_command_receipt_witness:
  "result (createTopic (sampleEnv True) sampleWallet sampleTopic) = Inr (TxRecord ''receipt'')
   \<and> list_ex (answeredBy (sampleEnv True) execute (TxRecord ''receipt''))
        (trace (createTopic (sampleEnv True) sampleWallet sampleTopic))
   \<and> result (associateTokens (sampleEnv True) sampleWallet sampleTokens) = Inr (TxRecord ''receipt'')
   \<and> list_ex (answeredBy (sampleEnv True) execute (TxRecord ''receipt''))
        (trace (associateTokens (sampleEnv True) sampleWallet sampleTokens))
   \<and> result (stakeHbar (sampleEnv True) sampleWallet sampleStake) = Inr (TxRecord ''receipt'')
   \<and> list_ex (answeredBy (sampleEnv True) execute (TxRecord ''receipt''))
        (trace (stakeHbar (sampleEnv True) sampleWallet sampleStake))
   \<and> result (updateTokenFeeSchedule (sampleEnv True) sampleWallet sampleFeeSchedule) = Inr (TxRecord ''receipt'')
   \<and> list_ex (answeredBy (sampleEnv True) execute (TxRecord ''receipt''))
        (trace (updateTokenFeeSchedule (sampleEnv True) sampleWallet sampleFeeSchedule))
   \<and> result (initiateSwap (sampleEnv True) sampleWallet (sampleSwaps 50)) = Inr (TxRecord ''receipt'')
   \<and> list_ex (answeredBy (sampleEnv True) initiateSwapMethod (TxRecord ''receipt''))
        (trace (initiateSwap (sampleEnv True) sampleWallet (sampleSwaps 50)))
   \<and> result (completeSwap (sampleEnv True) sampleWallet sampleSchedule) = Inr (TxRecord ''receipt'')
   \<and> list_ex (answeredBy (sampleEnv True) (completeSwapMethod ''0.0.9000'') (TxRecord ''receipt''))
        (trace (completeSwap (sampleEnv True) sampleWallet sampleSchedule))"
proof -
  have r1: "result (createTopic (sampleEnv True) sampleWallet sampleTopic) = Inr (TxRecord ''receipt'')"
    by (simp add: createTopic_def Let_def call_defs sampleEnv_def)
  have r2: "result (associateTokens (sampleEnv True) sampleWallet sampleTokens) = Inr (TxRecord ''receipt'')"
    by (simp add: associateTokens_def Let_def call_defs requestTokenIds_def sampleTokens_def sampleEnv_def)
  have r3: "result (stakeHbar (sampleEnv True) sampleWallet sampleStake) = Inr (TxRecord ''receipt'')"
    by (simp add: stakeHbar_def stakeHbarPlan_def Let_def call_defs sampleStake_def sampleEnv_def)
  have r4: "result (updateTokenFeeSchedule (sampleEnv True) sampleWallet sampleFeeSchedule)
              = Inr (TxRecord ''receipt'')"
    by (simp add: updateTokenFeeSchedule_def Let_def call_defs sampleFeeSchedule_def sampleEnv_def)
  from sample_initiateSwap_50 [of True]
  have r5: "result (initiateSwap (sampleEnv True) sampleWallet (sampleSwaps 50)) = Inr (TxRecord ''receipt'')"
    by auto
  have r6: "result (completeSwap (sampleEnv True) sampleWallet sampleSchedule) = Inr (TxRecord ''receipt'')"
    by (simp add: completeSwap_def Let_def call_defs sampleEnv_def)
  have s6: "scheduleId sampleSchedule = ''0.0.9000''"
    by (simp add: sampleSchedule_def)
  from facades_return_command_receipt
         [of "sampleEnv True" sampleWallet sampleTopic sampleTokens sampleStake sampleFeeSchedule
             "sampleSwaps 50" sampleSchedule]
  show ?thesis
    by (simp add: returnsReceiptOf_def r1 r2 r3 r4 r5 r6 s6)
qed

subsection \<open>The responder of a swap\<close>

text \<open>
  Claim C5. In \<^verbatim>\<open>initiateSwap\<close>, the command is built with as many swaps as the request
  has, and in every one of them the responder transfer goes to the account of the wallet
  (\<^verbatim>\<open>hederaAccountId\<close>), whatever the request said; and the dialog names, as the account
  that sends the responder transfer of a swap, the account that the requester transfer of
  that swap goes to.
\<close>

theorem initiateSwap_responder_to_wallet:
  "(CommandCall (AtomicSwapCommand swaps m f fees addr) meth cl \<in> set (trace (initiateSwap env w p)) \<longrightarrow>
      length swaps = length (requestSwaps p)
      \<and> list_all (\<lambda>s. to (responder s) = hederaAccountId (currentAccount (state w))) swaps)
   \<and> (SnapDialog dp \<in> set (trace (initiateSwap env w p)) \<longrightarrow>
        list_all (\<lambda>s. adjacent (Text ''Swap Responder'') (Copyable (to (requester s)))
                        (panelToShow (content dp)))
          (requestSwaps p))"
proof (intro conjI impI)
  assume "CommandCall (AtomicSwapCommand swaps m f fees addr) meth cl \<in> set (trace (initiateSwap env w p))"
  with initiateSwap_command obtain panel where
    "result (swapDialogs env (hederaAccountId (currentAccount (state w)))
               (mirrorNodeUrl (currentAccount (state w))) (serviceFeesToPay p) 0
               (swapsAfterFees p) (initiateSwapHeader env p)) = Inr (swaps, panel)"
    by blast
  then have sd: "swapsDone (hederaAccountId (currentAccount (state w))) (swapsAfterFees p)
                     (initiateSwapHeader env p) swaps panel"
    by (rule swapDialogs_result)
  from swapsDone_length [OF sd] show "length swaps = length (requestSwaps p)"
    by (simp add: swapsAfterFees_eq)
  from sd show "list_all (\<lambda>s. to (responder s) = hederaAccountId (currentAccount (state w))) swaps"
    by (simp add: swapsDone_def)
next
  assume "SnapDialog dp \<in> set (trace (initiateSwap env w p))"
  with initiateSwap_dialog obtain swaps where
    "result (swapDialogs env (hederaAccountId (currentAccount (state w)))
               (mirrorNodeUrl (currentAccount (state w))) (serviceFeesToPay p) 0
               (swapsAfterFees p) (initiateSwapHeader env p)) = Inr (swaps, panelToShow (content dp))"
    by blast
  then have "swapsDone (hederaAccountId (currentAccount (state w))) (swapsAfterFees p)
               (initiateSwapHeader env p) swaps (panelToShow (content dp))"
    by (rule swapDialogs_result)
  then show "list_all (\<lambda>s. adjacent (Text ''Swap Responder'') (Copyable (to (requester s)))
                        (panelToShow (content dp)))
               (requestSwaps p)"
    by (simp add: swapsDone_def swapsAfterFees_eq list_all_iff deductHalfFee_def)
qed

theorem initiateSwap_responder_to_wallet_witness:
  "\<exists>swaps dp.
     CommandCall (AtomicSwapCommand swaps None None [(''0.0.5'', Fin 100), (''HBAR'', Fin 15)]
        (Some ''0.0.98'')) initiateSwapMethod ''client''
       \<in> set (trace (initiateSwap (sampleEnv True) sampleWallet (sampleSwaps 50)))
     \<and> length swaps = 2
     \<and> list_all (\<lambda>s. to (responder s) = ''0.0.1001'') swaps
     \<and> SnapDialog dp \<in> set (trace (initiateSwap (sampleEnv True) sampleWallet (sampleSwaps 50)))
     \<and> adjacent (Text ''Swap Responder'') (Copyable ''0.0.2002'') (panelToShow (content dp))"
proof -
  from sample_initiateSwap_50 [of True] obtain swaps dp where
    d: "SnapDialog dp \<in> set (trace (initiateSwap (sampleEnv True) sampleWallet (sampleSwaps 50)))"
    and c: "CommandCall (AtomicSwapCommand swaps None None [(''0.0.5'', Fin 100), (''HBAR'', Fin 15)]
              (Some ''0.0.98'')) initiateSwapMethod ''client''
            \<in> set (trace (initiateSwap (sampleEnv True) sampleWallet (sampleSwaps 50)))"
    by auto
  from initiateSwap_responder_to_wallet
         [of swaps None None "[(''0.0.5'', Fin 100), (''HBAR'', Fin 15)]" "Some ''0.0.98''"
             initiateSwapMethod "''client''" "sampleEnv True" sampleWallet "sampleSwaps 50" dp]
       c d
  have "length swaps = 2 \<and> list_all (\<lambda>s. to (responder s) = ''0.0.1001'') swaps
          \<and> adjacent (Text ''Swap Responder'') (Copyable ''0.0.2002'') (panelToShow (content dp))"
    by (simp add: requestSwaps_def sampleSwaps_def tokenTransfer_def)
  with c d show ?thesis by blast
qed

subsection \<open>No service fee\<close>

text \<open>
  Claim C6. If \<^verbatim>\<open>serviceFee\<close> is left out of the request of \<^verbatim>\<open>initiateSwap\<close>, or its
  \<^verbatim>\<open>percentageCut\<close> is 0, then the fee of every transfer is 0, the amounts of the transfers
  given to the \<^verbatim>\<open>AtomicSwapCommand\<close> are those of the request, and every entry of the
  map \<^verbatim>\<open>serviceFeesToPay\<close> given to it is 0.
\<close>

theorem initiateSwap_zero_fee:
  assumes "case serviceFee p of None \<Rightarrow> True | Some f \<Rightarrow> percentageCut f = 0"
  shows "list_all (\<lambda>t. feeOf (requestServiceFee p) t = 0) (transfersOf (requestSwaps p))
         \<and> (CommandCall (AtomicSwapCommand swaps m f fees addr) meth cl
               \<in> set (trace (initiateSwap env w p)) \<longrightarrow>
              map amount (transfersOf swaps) = map amount (transfersOf (requestSwaps p))
              \<and> fees = serviceFeesToPay p \<and> allZero fees)"
proof -
  from assms have zero: "percentageCut (requestServiceFee p) = 0"
    by (simp add: requestServiceFee_def defaultServiceFee_def split: option.splits)
  then have fees: "list_all (\<lambda>t. feeOf (requestServiceFee p) t = 0) (transfersOf (requestSwaps p))"
    by (simp add: list_all_iff feeOf_zero)
  have "map amount (transfersOf swaps) = map amount (transfersOf (requestSwaps p))
          \<and> fees = serviceFeesToPay p \<and> allZero fees"
    if "CommandCall (AtomicSwapCommand swaps m f fees addr) meth cl \<in> set (trace (initiateSwap env w p))"
  proof -
    from that initiateSwap_command obtain panel where
      r: "result (swapDialogs env (hederaAccountId (currentAccount (state w)))
                 (mirrorNodeUrl (currentAccount (state w))) (serviceFeesToPay p) 0
                 (swapsAfterFees p) (initiateSwapHeader env p)) = Inr (swaps, panel)"
      and f: "fees = serviceFeesToPay p"
      by blast
    from swapDialogs_result [OF r] zero f show ?thesis
      by (simp add: swapsDone_def swapsAfterFees_zero serviceFeesToPay_zero)
  qed
  with fees show ?thesis by blast
qed

theorem initiateSwap_zero_fee_witness:
  "(case serviceFee (sampleSwaps 0) of None \<Rightarrow> True | Some f \<Rightarrow> percentageCut f = 0)
   \<and> (\<exists>swaps.
         CommandCall (AtomicSwapCommand swaps None None [(''0.0.5'', Fin 0), (''HBAR'', Fin 0)]
            (Some ''0.0.98'')) initiateSwapMethod ''client''
           \<in> set (trace (initiateSwap (sampleEnv True) sampleWallet (sampleSwaps 0)))
         \<and> map amount (transfersOf swaps) = [100, 10, 200, 20])
   \<and> list_all (\<lambda>t. feeOf (requestServiceFee (sampleSwaps 0)) t = 0)
        (transfersOf (requestSwaps (sampleSwaps 0)))
   \<and> serviceFee ((sampleSwaps 50)\<lparr>serviceFee := None\<rparr>) = None
   \<and> list_all (\<lambda>t. feeOf (requestServiceFee ((sampleSwaps 50)\<lparr>serviceFee := None\<rparr>)) t = 0)
        (transfersOf (requestSwaps ((sampleSwaps 50)\<lparr>serviceFee := None\<rparr>)))"
proof -
  have h: "case serviceFee (sampleSwaps 0) of None \<Rightarrow> True | Some f \<Rightarrow> percentageCut f = 0"
    by (simp add: sampleSwaps_def)
  have h': "case serviceFee ((sampleSwaps 50)\<lparr>serviceFee := None\<rparr>) of
              None \<Rightarrow> True | Some f \<Rightarrow> percentageCut f = 0"
    by simp
  from sample_initiateSwap_0 [of True] obtain swaps where
    c: "CommandCall (AtomicSwapCommand swaps None None [(''0.0.5'', Fin 0), (''HBAR'', Fin 0)]
          (Some ''0.0.98'')) initiateSwapMethod ''client''
        \<in> set (trace (initiateSwap (sampleEnv True) sampleWallet (sampleSwaps 0)))"
    by auto
  from initiateSwap_zero_fee
         [OF h, of swaps None None "[(''0.0.5'', Fin 0), (''HBAR'', Fin 0)]" "Some ''0.0.98''"
             initiateSwapMethod "''client''" "sampleEnv True" sampleWallet] c
  have "map amount (transfersOf swaps) = map amount (transfersOf (requestSwaps (sampleSwaps 0)))"
    and "list_all (\<lambda>t. feeOf (requestServiceFee (sampleSwaps 0)) t = 0)
           (transfersOf (requestSwaps (sampleSwaps 0)))"
    by blast+
  moreover have "map amount (transfersOf (requestSwaps (sampleSwaps 0))) = [100, 10, 200, 20]"
    by (simp add: requestSwaps_def sample_defs)
  moreover from initiateSwap_zero_fee [OF h']
  have "list_all (\<lambda>t. feeOf (requestServiceFee ((sampleSwaps 50)\<lparr>serviceFee := None\<rparr>)) t = 0)
          (transfersOf (requestSwaps ((sampleSwaps 50)\<lparr>serviceFee := None\<rparr>)))"
    by blast
  ultimately show ?thesis
    using h c by auto
qed

subsection \<open>The staking info persisted\<close>

text \<open>
  Claim C7. When \<^verbatim>\<open>stakeHbar\<close> returns, it has handed one state to
  \<^verbatim>\<open>SnapState.updateState\<close>, and in the staking info of the current account and network
  of that state \<^verbatim>\<open>stakedNodeId\<close> is the node id of the request (as a string) when one was
  given, \<^verbatim>\<open>stakedAccountId\<close> is the account id of the request when one (a string that is
  not empty) was given, and \<^verbatim>\<open>declineStakingReward\<close> is true exactly when neither was given.
\<close>

theorem stakeHbar_persists_staking_info:
  assumes "result (stakeHbar env w p) = Inr receipt"
  shows "\<exists>si. persistedStakingInfo (trace (stakeHbar env w p)) = [si]
           \<and> (\<forall>n. nodeId p = Some n \<longrightarrow> stakedNodeId si = Some (jsString env (Fin n)))
           \<and> (\<forall>a. accountId p = Some a \<and> a \<noteq> [] \<longrightarrow> stakedAccountId si = Some a)
           \<and> declineStakingReward si = (nodeId p = None \<and> accountId p = None)"
proof -
  let ?si = "stakingInfo (accountInfo (accountState (state w)
               (hederaEvmAddress (currentAccount (state w))) (network (currentAccount (state w)))))"
  from assms stakeHbar_persisted obtain panel sa sn d where
    plan: "result (stakeHbarPlan env (mirrorNodeUrl (currentAccount (state w))) ?si p)
             = Inr (panel, sa, sn, d)"
    and persisted: "persistedStakingInfo (trace (stakeHbar env w p))
             = [?si\<lparr>stakedAccountId := sa, stakedNodeId := sn, declineStakingReward := d\<rparr>]"
    by blast
  from stakeHbarPlan_result [OF plan] persisted show ?thesis
    by (simp add: stakingPlanned_def)
qed

theorem stakeHbar_persists_staking_info_witness:
  "result (stakeHbar (sampleEnv True) sampleWallet sampleStake) = Inr (TxRecord ''receipt'')
   \<and> (\<exists>si. persistedStakingInfo (trace (stakeHbar (sampleEnv True) sampleWallet sampleStake)) = [si]
          \<and> stakedNodeId si = Some ''3'' \<and> \<not> declineStakingReward si)
   \<and> result (stakeHbar (sampleEnv True) sampleWallet sampleStakeToAccount) = Inr (TxRecord ''receipt'')
   \<and> (\<exists>si. persistedStakingInfo (trace (stakeHbar (sampleEnv True) sampleWallet sampleStakeToAccount)) = [si]
          \<and> stakedAccountId si = Some ''0.0.800'' \<and> \<not> declineStakingReward si)
   \<and> result (stakeHbar (sampleEnv True) sampleWallet sampleUnstake) = Inr (TxRecord ''receipt'')
   \<and> (\<exists>si. persistedStakingInfo (trace (stakeHbar (sampleEnv True) sampleWallet sampleUnstake)) = [si]
          \<and> declineStakingReward si)"
proof -
  have r1: "result (stakeHbar (sampleEnv True) sampleWallet sampleStake) = Inr (TxRecord ''receipt'')"
    by (simp add: stakeHbar_def stakeHbarPlan_def Let_def call_defs sampleStake_def sampleEnv_def)
  have r2: "result (stakeHbar (sampleEnv True) sampleWallet sampleStakeToAccount) = Inr (TxRecord ''receipt'')"
    by (simp add: stakeHbar_def stakeHbarPlan_def Let_def call_defs sampleStakeToAccount_def sampleEnv_def)
  have r3: "result (stakeHbar (sampleEnv True) sampleWallet sampleUnstake) = Inr (TxRecord ''receipt'')"
    by (simp add: stakeHbar_def stakeHbarPlan_def Let_def call_defs sampleUnstake_def sampleEnv_def)
  have js: "jsString (sampleEnv True) (Fin 3) = ''3''"
    by (simp add: sampleEnv_def)
  from stakeHbar_persists_staking_info [OF r1] stakeHbar_persists_staking_info [OF r2]
       stakeHbar_persists_staking_info [OF r3] r1 r2 r3 js
  show ?thesis
    by (simp add: sampleStake_def sampleStakeToAccount_def sampleUnstake_def)
qed

subsection \<open>The approval window\<close>

text \<open>
  Claim C8. The panel of every dialog of \<^verbatim>\<open>initiateSwap\<close> holds the text that the
  responder will also need to approve the swap by calling "hts/completeSwap" API within 30
  minutes from now or the transaction will fail, and the panel of every dialog of
  \<^verbatim>\<open>completeSwap\<close> the text that all the parties involved in the swap must approve the
  swap within 30 minutes from now or the transaction will fail.
\<close>

theorem atomicSwap_dialogs_state_approval_window:
  "(SnapDialog dp \<in> set (trace (initiateSwap env w p)) \<longrightarrow>
      Text ''Are you sure you want to execute the following swap? Note that the responder will also need to approve the swap by calling \"hts/completeSwap\" API within 30 minutes from now or the transaction will fail.''
        \<in> set (panelToShow (content dp)))
   \<and> (SnapDialog dp' \<in> set (trace (completeSwap env w q)) \<longrightarrow>
        Text ''Are you sure you want to execute the following swap? Note that all the parties involved in the swap must approve the swap within 30 minutes from now or the transaction will fail.''
          \<in> set (panelToShow (content dp')))"
proof (intro conjI impI)
  assume "SnapDialog dp \<in> set (trace (initiateSwap env w p))"
  with initiateSwap_dialog obtain swaps where
    "result (swapDialogs env (hederaAccountId (currentAccount (state w)))
               (mirrorNodeUrl (currentAccount (state w))) (serviceFeesToPay p) 0
               (swapsAfterFees p) (initiateSwapHeader env p)) = Inr (swaps, panelToShow (content dp))"
    by blast
  then have "swapsDone (hederaAccountId (currentAccount (state w))) (swapsAfterFees p)
               (initiateSwapHeader env p) swaps (panelToShow (content dp))"
    by (rule swapDialogs_result)
  then obtain ext where "panelToShow (content dp) = initiateSwapHeader env p @ ext"
    by (auto simp: swapsDone_def)
  then show "Text ''Are you sure you want to execute the following swap? Note that the responder will also need to approve the swap by calling \"hts/completeSwap\" API within 30 minutes from now or the transaction will fail.''
               \<in> set (panelToShow (content dp))"
    by (simp add: initiateSwapHeader_def initiateSwapNotice_def)
next
  assume "SnapDialog dp' \<in> set (trace (completeSwap env w q))"
  then have "panelToShow (content dp') = completeSwapPanel env q"
    by (auto simp: completeSwap_def Let_def call_defs
             split: sum.splits option.splits if_splits)
  then show "Text ''Are you sure you want to execute the following swap? Note that all the parties involved in the swap must approve the swap within 30 minutes from now or the transaction will fail.''
               \<in> set (panelToShow (content dp'))"
    by (simp add: completeSwapPanel_def completeSwapNotice_def)
qed

theorem atomicSwap_dialogs_state_approval_window_witness:
  "(\<exists>dp. SnapDialog dp \<in> set (trace (initiateSwap (sampleEnv True) sampleWallet (sampleSwaps 50)))
         \<and> Text ''Are you sure you want to execute the following swap? Note that the responder will also need to approve the swap by calling \"hts/completeSwap\" API within 30 minutes from now or the transaction will fail.''
               \<in> set (panelToShow (content dp)))
   \<and> (\<exists>dp. SnapDialog dp \<in> set (trace (completeSwap (sampleEnv True) sampleWallet sampleSchedule))
         \<and> Text ''Are you sure you want to execute the following swap? Note that all the parties involved in the swap must approve the swap within 30 minutes from now or the transaction will fail.''
               \<in> set (panelToShow (content dp)))"
proof -
  from sample_initiateSwap_50 [of True] obtain dp where
    d: "SnapDialog dp \<in> set (trace (initiateSwap (sampleEnv True) sampleWallet (sampleSwaps 50)))"
    by auto
  have "\<exists>dp. SnapDialog dp \<in> set (trace (completeSwap (sampleEnv True) sampleWallet sampleSchedule))"
    by (simp add: completeSwap_def Let_def call_defs sampleEnv_def)
  then obtain dp' where
    d': "SnapDialog dp' \<in> set (trace (completeSwap (sampleEnv True) sampleWallet sampleSchedule))"
    by blast
  from atomicSwap_dialogs_state_approval_window
         [of dp "sampleEnv True" sampleWallet "sampleSwaps 50" dp' sampleSchedule] d d'
  show ?thesis by blast
qed

subsection \<open>The panel of associateTokens\<close>

text \<open>
  Claim C9. In \<^verbatim>\<open>associateTokens\<close>, when no lookup of a token throws, the operation shows
  exactly one dialog. Its panel is the heading followed by one segment for every token id of
  the request, in the order of the request. The segment of a token is its number, a
  divider and its asset id, then
  \<^item> when the mirror node answered the empty object, the warning that the token info could
    not be got and the advice to proceed only if the asset id exists, and nothing else;
  \<^item> when the mirror node answered a token, its name, its type, its symbol, its total supply
    and its max supply, each supply divided by 10 to the power of the decimals, and no
    warning;

  and a closing divider.
\<close>

theorem associateTokens_panel_per_token:
  assumes "list_all (\<lambda>tid. returns (getTokenById env tid (mirrorNodeUrl (currentAccount (state w)))))
             (requestTokenIds p)"
  shows "dialogPanels (trace (associateTokens env w p))
         = [initializePanelToShow env
            @ [Heading ''Associate Tokens'',
               Text ''Are you sure you want to associate the following tokens to your account?'',
               Divider]
            @ concat (map (\<lambda>tid.
                [Text (''Token #'' @ jsString env (Fin (real_of_int (indexOf (requestTokenIds p) tid + 1)))),
                 Divider, Text ''Asset Id:'', Copyable tid]
                @ (case getTokenById env tid (mirrorNodeUrl (currentAccount (state w))) of
                     Inl e \<Rightarrow> []
                   | Inr None \<Rightarrow>
                       [Text (''Error while trying to get token info for '' @ tid
                                @ '' from Hedera Mirror Nodes at this time''),
                        Text ''Proceed only if you are sure this asset ID exists'']
                   | Inr (Some ti) \<Rightarrow>
                       [Text (''Asset Name: '' @ token_name ti),
                        Text (''Asset Type: '' @ token_type ti),
                        Text (''Symbol: '' @ token_symbol ti),
                        Text (''Total Supply: ''
                                @ jsString env (jsDivide env (jsNumber env (total_supply ti))
                                                  (jsPow env (Fin 10) (jsNumber env (token_decimals ti))))),
                        Text (''Max Supply: ''
                                @ jsString env (jsDivide env (jsNumber env (max_supply ti))
                                                  (jsPow env (Fin 10) (jsNumber env (token_decimals ti)))))])
                @ [Divider])
              (requestTokenIds p))]"
proof -
  from tokenPanels_result [OF assms, of "requestTokenIds p" "associateTokensHeader env"]
       associateTokens_dialog [of env w p]
  have "dialogPanels (trace (associateTokens env w p))
          = [associateTokensHeader env
             @ concat (map (tokenSegment env (mirrorNodeUrl (currentAccount (state w))) (requestTokenIds p))
                         (requestTokenIds p))]"
    by simp
  then show ?thesis
    unfolding associateTokensHeader_def tokenSegment_def [abs_def] tokenInfoErrorMessage_def
      supplyString_def
    by simp
qed

theorem associateTokens_panel_per_token_witness:
  "list_all (\<lambda>tid. returns (getTokenById (sampleEnv True) tid (mirrorNodeUrl (currentAccount (state sampleWallet)))))
     (requestTokenIds sampleTokens)
   \<and> requestTokenIds sampleTokens = [''0.0.5'', ''0.0.7'']
   \<and> dialogPanels (trace (associateTokens (sampleEnv True) sampleWallet sampleTokens))
       = [[Heading ''Associate Tokens'',
           Text ''Are you sure you want to associate the following tokens to your account?'',
           Divider,
           Text ''Token #1'', Divider, Text ''Asset Id:'', Copyable ''0.0.5'',
           Text ''Asset Name: Gold'', Text ''Asset Type: FUNGIBLE_COMMON'', Text ''Symbol: GLD'',
           Text ''Total Supply: 1000'', Text ''Max Supply: 5000'', Divider,
           Text ''Token #2'', Divider, Text ''Asset Id:'', Copyable ''0.0.7'',
           Text ''Error while trying to get token info for 0.0.7 from Hedera Mirror Nodes at this time'',
           Text ''Proceed only if you are sure this asset ID exists'', Divider]]"
proof -
  have h: "list_all (\<lambda>tid. returns (getTokenById (sampleEnv True) tid
                                (mirrorNodeUrl (currentAccount (state sampleWallet)))))
             (requestTokenIds sampleTokens)"
    by (simp add: requestTokenIds_def sampleTokens_def sampleEnv_def)
  have t: "requestTokenIds sampleTokens = [''0.0.5'', ''0.0.7'']"
    by (simp add: requestTokenIds_def sampleTokens_def)
  from associateTokens_panel_per_token [OF h] h t show ?thesis
    by (simp add: sampleEnv_def sampleTokenInfo_def indexOf_def)
qed

subsection \<open>The custom fees of updateTokenFeeSchedule\<close>

text \<open>
  Claim C10. \<^verbatim>\<open>updateTokenFeeSchedule\<close> with \<^verbatim>\<open>customFees\<close> undefined throws
  \<^verbatim>\<open>invalidParams\<close> ("null custom fee schedule given") and has only written to the
  console: no dialog, no lookup, no command. With \<^verbatim>\<open>customFees\<close> defined the check is
  passed: the first call is the lookup of the token at the mirror node.
\<close>

theorem updateTokenFeeSchedule_undefined_custom_fees:
  "(customFees p = None \<longrightarrow>
      updateTokenFeeSchedule env w p
        = (Inl (invalidParams ''null custom fee schedule given''),
           [ConsoleError [''null custom fee schedule given'']]))
   \<and> (customFees p \<noteq> None \<longrightarrow>
        take 1 (trace (updateTokenFeeSchedule env w p))
          = [GetTokenById (tokenId p) (mirrorNodeUrl (currentAccount (state w)))])"
proof (intro conjI impI)
  assume "customFees p = None"
  then show "updateTokenFeeSchedule env w p
               = (Inl (invalidParams ''null custom fee schedule given''),
                  [ConsoleError [''null custom fee schedule given'']])"
    by (simp add: updateTokenFeeSchedule_def call_defs bind_def emit_def throw_def)
next
  assume "customFees p \<noteq> None"
  then obtain fees where "customFees p = Some fees"
    by (cases "customFees p") simp_all
  then show "take 1 (trace (updateTokenFeeSchedule env w p))
               = [GetTokenById (tokenId p) (mirrorNodeUrl (currentAccount (state w)))]"
    by (simp add: updateTokenFeeSchedule_def Let_def call_defs split: sum.split)
qed

theorem updateTokenFeeSchedule_undefined_custom_fees_witness:
  "customFees (sampleFeeSchedule\<lparr>customFees := None\<rparr>) = None
   \<and> updateTokenFeeSchedule (sampleEnv True) sampleWallet (sampleFeeSchedule\<lparr>customFees := None\<rparr>)
       = (Inl (invalidParams ''null custom fee schedule given''),
          [ConsoleError [''null custom fee schedule given'']])
   \<and> customFees sampleFeeSchedule \<noteq> None
   \<and> take 1 (trace (updateTokenFeeSchedule (sampleEnv True) sampleWallet sampleFeeSchedule))
       = [GetTokenById ''0.0.5'' ''https://testnet.mirrornode.hedera.com'']"
  using updateTokenFeeSchedule_undefined_custom_fees
          [of "sampleFeeSchedule\<lparr>customFees := None\<rparr>" "sampleEnv True" sampleWallet]
        updateTokenFeeSchedule_undefined_custom_fees
          [of sampleFeeSchedule "sampleEnv True" sampleWallet]
  by (simp add: sampleFeeSchedule_def)

end
